theory Spec2Isabelle
  imports Main "HOL-Library.AList"
begin

section \<open>Strings and JSON values\<close>

text \<open>
  A Python \<open>str\<close> is a sequence of Unicode code points: \<open>len\<close>, slicing and
  \<open>strip\<close> count code points, and the closing message of the service starts with a
  code point outside ASCII. A string is therefore a list of code points. ASCII literals
  of the source are written \<open>py ''...''\<close>.
\<close>

type_synonym pystr = "nat list"

definition py :: "string \<Rightarrow> pystr" where
  "py s = map of_char s"

text \<open>
  A value stored under a key of a message or request is \<open>Optional[str]\<close>: \<open>None\<close> is
  Python's \<open>None\<close> (JSON \<open>null\<close>), \<open>Some s\<close> a string. An entry of a dict is a
  \<open>pyval option\<close>: \<open>None\<close> when the key is absent.
\<close>

type_synonym pyval = "pystr option"

datatype error =
    KeyError string
  | AttributeError pystr
  | UnicodeEncodeError pystr
  | Exception pystr

text \<open>
  \<open>str(e)\<close>, as the handlers of the routes print it. An \<open>AttributeError\<close>, a
  \<open>UnicodeEncodeError\<close> and an exception of the capability carry their text.
\<close>

fun str_of_error :: "error \<Rightarrow> pystr" where
  "str_of_error (KeyError k) = [39] @ py k @ [39]"
| "str_of_error (AttributeError s) = s"
| "str_of_error (UnicodeEncodeError s) = s"
| "str_of_error (Exception s) = s"

text \<open>\<open>d.get(k, default)\<close> and \<open>d[k]\<close> on one entry of a dict.\<close>

definition dict_get :: "'a option \<Rightarrow> 'a \<Rightarrow> 'a" where
  "dict_get entry dflt = (case entry of None \<Rightarrow> dflt | Some v \<Rightarrow> v)"

definition dict_index :: "string \<Rightarrow> 'a option \<Rightarrow> error + 'a" where
  "dict_index k entry = (case entry of None \<Rightarrow> Inl (KeyError k) | Some v \<Rightarrow> Inr v)"

text \<open>Truthiness of an \<open>Optional[str]\<close>: \<open>None\<close> and \<open>""\<close> are false.\<close>

definition truthy :: "pyval \<Rightarrow> bool" where
  "truthy v = (case v of None \<Rightarrow> False | Some s \<Rightarrow> s \<noteq> [])"

text \<open>
  \<open>str.strip()\<close> removes leading and trailing white space, the code points for which
  \<open>str.isspace\<close> holds.
\<close>

definition isspace :: "nat \<Rightarrow> bool" where
  "isspace c = ((9 \<le> c \<and> c \<le> 13) \<or> (28 \<le> c \<and> c \<le> 32) \<or> c = 133 \<or> c = 160 \<or> c = 5760
     \<or> (8192 \<le> c \<and> c \<le> 8202) \<or> c = 8232 \<or> c = 8233 \<or> c = 8239 \<or> c = 8287 \<or> c = 12288)"

definition strip :: "pystr \<Rightarrow> pystr" where
  "strip s = rev (dropWhile isspace (rev (dropWhile isspace s)))"

text \<open>\<open>sep.join(xs)\<close>.\<close>

fun join :: "pystr \<Rightarrow> pystr list \<Rightarrow> pystr" where
  "join sep [] = []"
| "join sep [x] = x"
| "join sep (x # y # ys) = x @ sep @ join sep (y # ys)"

text \<open>
  \<open>uuid.uuid4().hex\<close> is the 32 lower-case hexadecimal digits of a random number of 128
  bits. The number drawn is an input of the model; the code keeps the first eight
  digits.
\<close>

definition hexdigit :: "nat \<Rightarrow> nat" where
  "hexdigit n = (if n < 10 then 48 + n else 87 + n)"

definition hex_width :: "nat \<Rightarrow> nat \<Rightarrow> pystr" where
  "hex_width k n = map (\<lambda>i. hexdigit (n div 16 ^ i mod 16)) (rev [0..<k])"

definition is_hexdigit :: "nat \<Rightarrow> bool" where
  "is_hexdigit c = ((48 \<le> c \<and> c \<le> 57) \<or> (97 \<le> c \<and> c \<le> 102))"

definition short_id :: "nat \<Rightarrow> pystr" where
  "short_id u = take 8 (hex_width 32 u)"

section \<open>Data model\<close>

text \<open>
  The messages are dicts with the keys \<open>id\<close>, \<open>sender\<close>, \<open>text\<close>, \<open>image_url\<close> and
  \<open>status\<close>, each of which may be absent. A session is a dict with the keys \<open>title\<close>
  and \<open>messages\<close>. The store \<open>SessionManager.sessions\<close> is a dict from session ids to
  sessions, kept as an association list in insertion order, which is the order the
  scans of the store follow.
\<close>

record message =
  m_id :: "pyval option"
  m_sender :: "pyval option"
  m_text :: "pyval option"
  m_image_url :: "pyval option"
  m_status :: "pyval option"

record session =
  title :: pystr
  messages :: "message list"

type_synonym store = "(pystr \<times> session) list"

section \<open>SessionManager\<close>

text \<open>\<open>SessionManager.get\<close>: \<open>self.sessions.get(session_id)\<close>.\<close>

definition get :: "store \<Rightarrow> pystr \<Rightarrow> session option" where
  "get ss session_id = map_of ss session_id"

text \<open>
  \<open>SessionManager.create\<close>. The first argument after the store is the uuid drawn by
  the call. Assigning to a key of a dict replaces the value of an existing key where it
  stands and appends a new key at the end.
\<close>

definition create :: "store \<Rightarrow> nat \<Rightarrow> pystr \<Rightarrow> pystr \<times> store" where
  "create ss u prompt =
     (let session_id = short_id u
      in (session_id,
          AList.update session_id
            \<lparr>title = take 30 prompt @ (if length prompt > 30 then py ''...'' else []),
             messages = []\<rparr>
            ss))"

text \<open>\<open>SessionManager.add_message\<close>: nothing happens for an unknown session id.\<close>

definition add_message :: "store \<Rightarrow> pystr \<Rightarrow> message \<Rightarrow> store" where
  "add_message ss session_id msg =
     (if session_id \<in> fst ` set ss
      then AList.map_entry session_id (\<lambda>s. s\<lparr>messages := messages s @ [msg]\<rparr>) ss
      else ss)"

text \<open>
  \<open>SessionManager.update_message_status\<close>. The inner loop over the messages of one
  session returns the updated list when it met the id, and \<open>None\<close> when it ran to its
  end; the outer loop over the sessions stops at the first session whose inner loop
  returned.
\<close>

fun update_status_in_messages :: "message list \<Rightarrow> pystr \<Rightarrow> pystr \<Rightarrow> message list option" where
  "update_status_in_messages [] message_id status = None"
| "update_status_in_messages (msg # rest) message_id status =
     (if dict_get (m_id msg) None = Some message_id
      then Some (msg\<lparr>m_status := Some (Some status)\<rparr> # rest)
      else map_option ((#) msg) (update_status_in_messages rest message_id status))"

fun update_message_status :: "store \<Rightarrow> pystr \<Rightarrow> pystr \<Rightarrow> store \<times> bool" where
  "update_message_status [] message_id status = ([], False)"
| "update_message_status ((sid, session) # rest) message_id status =
     (case update_status_in_messages (messages session) message_id status of
        Some msgs \<Rightarrow> ((sid, session\<lparr>messages := msgs\<rparr>) # rest, True)
      | None \<Rightarrow>
          (case update_message_status rest message_id status of
             (rest', found) \<Rightarrow> ((sid, session) # rest', found)))"

text \<open>
  \<open>SessionManager.find_message_prompt\<close>. The inner loop enumerates the messages of a
  session: \<open>all_msgs\<close> is the whole list, \<open>i\<close> the index of the head of the list still
  to visit. Indexing a message at a key it lacks raises \<open>KeyError\<close>.
\<close>

fun find_in_messages ::
  "pystr \<Rightarrow> message list \<Rightarrow> nat \<Rightarrow> message list \<Rightarrow> pystr \<Rightarrow> (error + pystr \<times> pyval) option" where
  "find_in_messages sid all_msgs i [] message_id = None"
| "find_in_messages sid all_msgs i (msg # rest) message_id =
     (if dict_get (m_id msg) None = Some message_id
      then Some
        (if i > 0
         then (case dict_index ''sender'' (m_sender (all_msgs ! (i - 1))) of
                 Inl e \<Rightarrow> Inl e
               | Inr sender \<Rightarrow>
                   if sender = Some (py ''user'')
                   then (case dict_index ''text'' (m_text (all_msgs ! (i - 1))) of
                           Inl e \<Rightarrow> Inl e
                         | Inr t \<Rightarrow> Inr (sid, t))
                   else Inr (sid, dict_get (m_text msg) (Some [])))
         else Inr (sid, dict_get (m_text msg) (Some [])))
      else find_in_messages sid all_msgs (Suc i) rest message_id)"

fun find_message_prompt :: "store \<Rightarrow> pystr \<Rightarrow> error + (pystr \<times> pyval) option" where
  "find_message_prompt [] message_id = Inr None"
| "find_message_prompt ((sid, session) # rest) message_id =
     (case find_in_messages sid (messages session) 0 (messages session) message_id of
        Some (Inl e) \<Rightarrow> Inl e
      | Some (Inr r) \<Rightarrow> Inr (Some r)
      | None \<Rightarrow> find_message_prompt rest message_id)"

text \<open>
  \<open>SessionManager.get_all_prompts\<close>. The comprehension keeps the messages whose
  \<open>sender\<close> is \<open>"user"\<close> and whose \<open>text\<close> is true, so every text it collects is a
  non-empty string. A session dict has two keys and is never false.
\<close>

fun user_prompts :: "message list \<Rightarrow> pystr list" where
  "user_prompts [] = []"
| "user_prompts (msg # rest) =
     (if dict_get (m_sender msg) None = Some (py ''user'') \<and> truthy (dict_get (m_text msg) None)
      then (case dict_get (m_text msg) (Some []) of
              Some t \<Rightarrow> t # user_prompts rest
            | None \<Rightarrow> user_prompts rest)
      else user_prompts rest)"

definition get_all_prompts :: "store \<Rightarrow> pystr \<Rightarrow> pystr" where
  "get_all_prompts ss session_id =
     (case map_of ss session_id of
        None \<Rightarrow> []
      | Some session \<Rightarrow> join (py ''. '') (user_prompts (messages session)))"

section \<open>The environment\<close>

text \<open>
  \<open>print\<close> writes to the standard output, which encodes the text. Whether a code
  point above ASCII can be encoded depends on the codec and error handler of the
  deployment, which \<open>stdout_encodes\<close> gives; every codec encodes ASCII. A text with a
  code point that cannot be encoded makes \<open>print\<close> raise \<open>UnicodeEncodeError\<close>, whose text
  (it names the codec, the code point and its position) is given by
  \<open>encode_error_text\<close>. The standard output is taken to be open.
\<close>

datatype document = NoFile | Corrupt | Document store

text \<open>
  The reaction of the file system to \<open>save\<close>: the file is opened and written, or an
  \<open>IOError\<close> is raised, with what it leaves on disk and its text.
\<close>

datatype io = Written | IOError document pystr

record environment =
  stdout_encodes :: "nat \<Rightarrow> bool"
  encode_error_text :: "pystr \<Rightarrow> pystr"
  isprintable :: "nat \<Rightarrow> bool"
  file_write :: io
  dump_error_text :: pystr

definition can_print :: "environment \<Rightarrow> pystr \<Rightarrow> bool" where
  "can_print w text = list_all (\<lambda>c. c < 128 \<or> stdout_encodes w c) text"

definition py_print :: "environment \<Rightarrow> pystr \<Rightarrow> error option" where
  "py_print w text =
     (if can_print w text then None else Some (UnicodeEncodeError (encode_error_text w text)))"

text \<open>\<open>str(x)\<close> of an \<open>Optional[str]\<close>, as an f-string formats it.\<close>

definition str_of_pyval :: "pyval \<Rightarrow> pystr" where
  "str_of_pyval v = (case v of None \<Rightarrow> py ''None'' | Some s \<Rightarrow> s)"

text \<open>
  \<open>repr\<close> of a \<open>str\<close>, which formats the values of the response dict that
  \<open>generate_image\<close> prints. The quote is \<open>"\<close> when the string has a \<open>'\<close> and no \<open>"\<close>,
  and \<open>'\<close> otherwise. The quote and the backslash are escaped, tab, newline and
  carriage return are written \<open>\t\<close>, \<open>\n\<close>, \<open>\r\<close>, the other ASCII control characters and
  the characters above ASCII that are not printable are written as hexadecimal escapes,
  and every other character is written as it is. \<open>isprintable\<close> is \<open>str.isprintable\<close> on
  the characters above ASCII, a table of the Unicode database.
\<close>

definition repr_char :: "environment \<Rightarrow> nat \<Rightarrow> nat \<Rightarrow> pystr" where
  "repr_char w quote c =
     (if c = quote \<or> c = 92 then [92, c]
      else if c = 9 then [92, 116]
      else if c = 10 then [92, 110]
      else if c = 13 then [92, 114]
      else if c < 32 \<or> c = 127 then [92, 120] @ hex_width 2 c
      else if c < 127 then [c]
      else if isprintable w c then [c]
      else if c \<le> 255 then [92, 120] @ hex_width 2 c
      else if c \<le> 65535 then [92, 117] @ hex_width 4 c
      else [92, 85] @ hex_width 8 c)"

definition repr_str :: "environment \<Rightarrow> pystr \<Rightarrow> pystr" where
  "repr_str w s =
     (let quote = (if 39 \<in> set s \<and> 34 \<notin> set s then 34 else 39)
      in [quote] @ concat (map (repr_char w quote) s) @ [quote])"

text \<open>
  The sessions file. \<open>json.dump\<close> writes a function of the store, so a written
  document is modelled by the store it holds. The file is opened with the encoding
  UTF-8, which encodes every code point but the surrogates. \<open>SessionManager.save\<close>
  catches \<open>IOError\<close> only and prints it. When the file was opened and the store holds a
  surrogate, \<open>json.dump\<close> raises \<open>UnicodeEncodeError\<close>, which leaves \<open>save\<close>: the file
  was emptied by \<open>open\<close> and then holds the part written before the surrogate, which
  is not a document. The text of that error is given by \<open>dump_error_text\<close>.
\<close>

definition utf8_encodes :: "nat \<Rightarrow> bool" where
  "utf8_encodes c = (\<not> (55296 \<le> c \<and> c \<le> 57343))"

definition encodable_value :: "pyval option \<Rightarrow> bool" where
  "encodable_value v = (case v of Some (Some s) \<Rightarrow> list_all utf8_encodes s | _ \<Rightarrow> True)"

definition encodable_message :: "message \<Rightarrow> bool" where
  "encodable_message m =
     (encodable_value (m_id m) \<and> encodable_value (m_sender m) \<and> encodable_value (m_text m)
      \<and> encodable_value (m_image_url m) \<and> encodable_value (m_status m))"

definition encodable_store :: "store \<Rightarrow> bool" where
  "encodable_store ss =
     list_all (\<lambda>(k, s). list_all utf8_encodes k \<and> list_all utf8_encodes (title s)
                 \<and> list_all encodable_message (messages s)) ss"

record state =
  sessions :: store
  persisted :: document

definition load_sessions :: "document \<Rightarrow> store" where
  "load_sessions f = (case f of Document ss \<Rightarrow> ss | Corrupt \<Rightarrow> [] | NoFile \<Rightarrow> [])"

text \<open>
  \<open>SessionManager.save\<close> returns the exception that leaves it, if one does, and the
  state.
\<close>

definition save :: "state \<Rightarrow> environment \<Rightarrow> error option \<times> state" where
  "save st w =
     (case file_write w of
        IOError left msg \<Rightarrow>
          (py_print w (py ''Error saving sessions: '' @ msg), st\<lparr>persisted := left\<rparr>)
      | Written \<Rightarrow>
          if encodable_store (sessions st)
          then (None, st\<lparr>persisted := Document (sessions st)\<rparr>)
          else (Some (UnicodeEncodeError (dump_error_text w)), st\<lparr>persisted := Corrupt\<rparr>))"

section \<open>Routes\<close>

text \<open>
  \<open>image_generator.generate\<close> runs the two diffusion pipelines and writes the image.
  Both are opaque: the capability is a parameter of the routes, a function from the
  prompt to the returned path or to the exception raised. The uuids drawn by a route are
  parameters as well. An exception that leaves a route is answered by the framework
  with the status 500: the body \<open>Unhandled\<close>.
\<close>

type_synonym capability = "pystr \<Rightarrow> error + pystr"

record draws =
  u_session :: nat
  u_user :: nat
  u_bot :: nat
  u_boom :: nat

datatype body =
    GenerateOk pystr pystr pystr
  | RegenerateOk pystr pystr pystr pystr
  | StatusOk
  | ErrorBody pystr
  | Unhandled error

type_synonym response = "body \<times> nat"

record generate_request =
  req_prompt :: "pyval option"
  req_session_id :: pyval

definition user_message :: "pystr \<Rightarrow> pystr \<Rightarrow> message" where
  "user_message user_id t =
     \<lparr>m_id = Some (Some user_id), m_sender = Some (Some (py ''user'')), m_text = Some (Some t),
      m_image_url = None, m_status = None\<rparr>"

definition bot_message :: "pystr \<Rightarrow> pystr \<Rightarrow> pystr \<Rightarrow> message" where
  "bot_message bot_id image_path t =
     \<lparr>m_id = Some (Some bot_id), m_sender = Some (Some (py ''bot'')), m_text = Some (Some t),
      m_image_url = Some (Some (py ''/static/'' @ image_path)), m_status = Some None\<rparr>"

definition boom_text :: pystr where
  "boom_text = [128165] @
     py '' Boom! Image is generated, do you want H&C to help you with anything else?''"

definition boom_message :: "pystr \<Rightarrow> message" where
  "boom_message boom_id =
     \<lparr>m_id = Some (Some boom_id), m_sender = Some (Some (py ''bot'')), m_text = Some (Some boom_text),
      m_image_url = None, m_status = None\<rparr>"

definition generation_failed :: "error \<Rightarrow> response" where
  "generation_failed e = (ErrorBody (py ''Image generation failed: '' @ str_of_error e), 500)"

definition none_has_no_strip :: error where
  "none_has_no_strip = AttributeError
     ([39] @ py ''NoneType'' @ [39] @ py '' object has no attribute '' @ [39] @ py ''strip'' @ [39])"


text \<open>
  The \<open>except\<close> clause of \<open>generate_image\<close>. It prints the text of the exception
  before it answers; the other lines it prints are ASCII, and the traceback goes to the
  standard error, which escapes what it cannot encode. When that \<open>print\<close> raises, the
  exception leaves the route.
\<close>

definition except_clause :: "environment \<Rightarrow> state \<Rightarrow> error \<Rightarrow> response \<times> state" where
  "except_clause w st e =
     (case py_print w (py ''Error message: '' @ str_of_error e) of
        Some e' \<Rightarrow> ((Unhandled e', 500), st)
      | None \<Rightarrow> (generation_failed e, st))"

text \<open>
  The session logic of \<open>generate_image\<close>: the session id the run works on, the prompt
  handed to the capability, the line the branch prints after it, and the store after
  it.
\<close>

fun session_logic ::
  "store \<Rightarrow> nat \<Rightarrow> pyval \<Rightarrow> pystr \<Rightarrow> pystr \<times> pystr \<times> pystr \<times> store" where
  "session_logic ss u (Some sid) prompt_new =
     (if sid \<noteq> [] \<and> get ss sid \<noteq> None
      then (let old_prompts = get_all_prompts ss sid;
                prompt = (if old_prompts \<noteq> [] then old_prompts @ py ''. '' @ prompt_new
                          else prompt_new)
            in (sid, prompt,
                py ''Using existing session. Full prompt: '' @ take 100 prompt @ py ''...'', ss))
      else (case create ss u prompt_new of
              (sid', ss') \<Rightarrow> (sid', prompt_new, py ''Created new session: '' @ sid', ss')))"
| "session_logic ss u None prompt_new =
     (case create ss u prompt_new of
        (sid', ss') \<Rightarrow> (sid', prompt_new, py ''Created new session: '' @ sid', ss'))"

text \<open>
  The line that \<open>generate_image\<close> prints before it returns: the \<open>repr\<close> of the response
  dict.
\<close>

definition response_line :: "environment \<Rightarrow> pystr \<Rightarrow> pystr \<Rightarrow> pystr \<Rightarrow> pystr" where
  "response_line w session_id image_url message_id =
     py ''Returning response: {'' @ repr_str w (py ''session_id'') @ py '': ''
       @ repr_str w session_id @ py '', '' @ repr_str w (py ''image_url'') @ py '': ''
       @ repr_str w image_url @ py '', '' @ repr_str w (py ''message_id'') @ py '': ''
       @ repr_str w message_id @ py ''}''"

text \<open>
  The part of \<open>generate_image\<close> after the capability returned a path: the three
  appends, \<open>save\<close> and the response. The prints of constant ASCII lines cannot raise
  and are left out.
\<close>

definition finish_generation ::
  "environment \<Rightarrow> draws \<Rightarrow> state \<Rightarrow> pystr \<Rightarrow> pystr \<Rightarrow> pystr \<Rightarrow> pystr \<Rightarrow> response \<times> state" where
  "finish_generation w d st session_id prompt_new prompt image_path =
     (case py_print w (py ''Image generation complete: '' @ image_path) of
        Some e \<Rightarrow> except_clause w st e
      | None \<Rightarrow>
          (let user_id = short_id (u_user d);
               bot_id = short_id (u_bot d);
               boom_id = short_id (u_boom d);
               ss2 = add_message (sessions st) session_id (user_message user_id prompt_new);
               ss3 = add_message ss2 session_id
                       (bot_message bot_id image_path
                          (py ''Image is generated from prompt:'' @ [10] @ prompt));
               ss4 = add_message ss3 session_id (boom_message boom_id)
           in (case save (st\<lparr>sessions := ss4\<rparr>) w of
                 (Some e, st') \<Rightarrow> except_clause w st' e
               | (None, st') \<Rightarrow>
                   (case py_print w
                           (response_line w session_id (py ''/static/'' @ image_path) bot_id) of
                      Some e \<Rightarrow> except_clause w st' e
                    | None \<Rightarrow>
                        ((GenerateOk session_id (py ''/static/'' @ image_path) bot_id, 200),
                         st')))))"

text \<open>
  \<open>generate_image\<close>. The body runs inside \<open>try\<close>: an exception raised anywhere in it,
  by \<open>strip\<close>, a \<open>print\<close>, the capability or \<open>save\<close>, goes to the \<open>except\<close> clause with
  the store as it is at that point. The prompt and the session id are printed before
  the prompt is tested.
\<close>

definition generate_image ::
  "capability \<Rightarrow> draws \<Rightarrow> environment \<Rightarrow> generate_request \<Rightarrow> state \<Rightarrow> response \<times> state" where
  "generate_image generate d w req st =
     (case dict_get (req_prompt req) (Some []) of
        None \<Rightarrow> except_clause w st none_has_no_strip
      | Some raw \<Rightarrow>
          (let prompt_new = strip raw
           in (case py_print w (py ''Prompt: '' @ prompt_new) of
                 Some e \<Rightarrow> except_clause w st e
               | None \<Rightarrow>
                   (case py_print w (py ''Session ID: '' @ str_of_pyval (req_session_id req)) of
                      Some e \<Rightarrow> except_clause w st e
                    | None \<Rightarrow>
                        if prompt_new = [] then ((ErrorBody (py ''Prompt is empty''), 400), st)
                        else
                          (case session_logic (sessions st) (u_session d) (req_session_id req)
                                  prompt_new of
                             (session_id, prompt, line, ss1) \<Rightarrow>
                               (case py_print w line of
                                  Some e \<Rightarrow> except_clause w (st\<lparr>sessions := ss1\<rparr>) e
                                | None \<Rightarrow>
                                    (case generate prompt of
                                       Inl e \<Rightarrow> except_clause w (st\<lparr>sessions := ss1\<rparr>) e
                                     | Inr image_path \<Rightarrow>
                                         finish_generation w d (st\<lparr>sessions := ss1\<rparr>) session_id
                                           prompt_new prompt image_path)))))))"

text \<open>
  \<open>regenerate\<close>. Only the call of the capability is inside \<open>try\<close>: a \<open>KeyError\<close> of
  \<open>find_message_prompt\<close> and an exception of \<open>save\<close> leave the route.
\<close>

definition regenerate ::
  "capability \<Rightarrow> draws \<Rightarrow> environment \<Rightarrow> pyval \<Rightarrow> state \<Rightarrow> response \<times> state" where
  "regenerate generate d w message_id st =
     (case message_id of
        None \<Rightarrow> ((ErrorBody (py ''Missing message_id''), 400), st)
      | Some mid \<Rightarrow>
          if mid = [] then ((ErrorBody (py ''Missing message_id''), 400), st)
          else
            (case find_message_prompt (sessions st) mid of
               Inl e \<Rightarrow> ((Unhandled e, 500), st)
             | Inr None \<Rightarrow> ((ErrorBody (py ''Message not found''), 404), st)
             | Inr (Some (session_id, p)) \<Rightarrow>
                 (case p of
                    None \<Rightarrow> ((ErrorBody (py ''No valid prompt found''), 400), st)
                  | Some prompt \<Rightarrow>
                      if prompt = [] then ((ErrorBody (py ''No valid prompt found''), 400), st)
                      else
                        (case generate prompt of
                           Inl e \<Rightarrow> (generation_failed e, st)
                         | Inr image_path \<Rightarrow>
                             (let new_user_id = short_id (u_user d);
                                  new_bot_id = short_id (u_bot d);
                                  boom_id = short_id (u_boom d);
                                  ss1 = add_message (sessions st) session_id
                                          (user_message new_user_id prompt);
                                  ss2 = add_message ss1 session_id
                                          (bot_message new_bot_id image_path prompt);
                                  ss3 = add_message ss2 session_id (boom_message boom_id)
                              in (case save (st\<lparr>sessions := ss3\<rparr>) w of
                                    (Some e, st') \<Rightarrow> ((Unhandled e, 500), st')
                                  | (None, st') \<Rightarrow>
                                      ((RegenerateOk session_id prompt
                                          (py ''/static/'' @ image_path) new_bot_id, 200),
                                       st')))))))"

text \<open>\<open>update_status\<close>. An exception of \<open>save\<close> leaves the route.\<close>

definition update_status :: "environment \<Rightarrow> pyval \<Rightarrow> pyval \<Rightarrow> state \<Rightarrow> response \<times> state" where
  "update_status w message_id status st =
     (if \<not> truthy message_id \<or> \<not> truthy status
      then ((ErrorBody (py ''Missing message_id or status''), 400), st)
      else
        (case (message_id, status) of
           (Some mid, Some s) \<Rightarrow>
             (case update_message_status (sessions st) mid s of
                (ss', ok) \<Rightarrow>
                  if ok
                  then (case save (st\<lparr>sessions := ss'\<rparr>) w of
                          (Some e, st') \<Rightarrow> ((Unhandled e, 500), st')
                        | (None, st') \<Rightarrow> ((StatusOk, 200), st'))
                  else ((ErrorBody (py ''Message not found''), 404), st\<lparr>sessions := ss'\<rparr>))
         | _ \<Rightarrow> ((ErrorBody (py ''Missing message_id or status''), 400), st)))"

section \<open>An environment and capabilities for the examples\<close>

text \<open>
  A standard output with the codec UTF-8 and the error handler \<open>strict\<close>, which
  encodes every code point but the surrogates. The text of its error names the first
  run of surrogates: one character with its escape and position, or the positions of
  the first and last character of a longer run.
\<close>

function dec :: "nat \<Rightarrow> pystr" where
  "dec n = (if n < 10 then [48 + n] else dec (n div 10) @ [48 + n mod 10])"
  by pat_completeness auto
termination
  by (relation "measure id") auto

definition utf8_error_text :: "pystr \<Rightarrow> pystr" where
  "utf8_error_text text =
     (let start = length (takeWhile utf8_encodes text);
          run = takeWhile (\<lambda>c. \<not> utf8_encodes c) (drop start text)
      in [39] @ py ''utf-8'' @ [39] @ py '' codec can'' @ [39] @ py ''t encode ''
         @ (if length run \<le> 1
            then py ''character '' @ [39, 92, 117] @ hex_width 4 (text ! start) @ [39]
                 @ py '' in position '' @ dec start
            else py ''characters in position '' @ dec start @ py ''-''
                 @ dec (start + length run - 1))
         @ py '': surrogates not allowed'')"

text \<open>
  The examples print only ASCII ids and paths in the response line, on which \<open>repr\<close>
  does not consult \<open>isprintable\<close>; this environment takes the code points above ASCII
  that UTF-8 encodes for printable. Its sessions file can be written.
\<close>

definition utf8_deployment :: environment where
  "utf8_deployment =
     \<lparr>stdout_encodes = utf8_encodes, encode_error_text = utf8_error_text,
      isprintable = utf8_encodes, file_write = Written, dump_error_text = []\<rparr>"

text \<open>A capability that returns one path, and one that raises one exception.\<close>

definition returns_path :: "pystr \<Rightarrow> capability" where
  "returns_path image_path prompt = Inr image_path"

definition raises :: "error \<Rightarrow> capability" where
  "raises e prompt = Inl e"

section \<open>The prompt history as the specification words it\<close>

text \<open>
  The specification of \<open>concatenated_prompt_history\<close>: the texts of the messages of the
  session whose sender is the user and whose text is not empty, in the order of the
  session, with the separator before every text but the first. An absent session has
  the empty history.
\<close>

definition is_user_prompt :: "message \<Rightarrow> bool" where
  "is_user_prompt m =
     (m_sender m = Some (Some (py ''user''))
      \<and> (case m_text m of Some (Some t) \<Rightarrow> t \<noteq> [] | _ \<Rightarrow> False))"

definition text_of :: "message \<Rightarrow> pystr" where
  "text_of m = (case m_text m of Some (Some t) \<Rightarrow> t | _ \<Rightarrow> [])"

definition separated :: "pystr \<Rightarrow> pystr list \<Rightarrow> pystr" where
  "separated sep xs = (case xs of [] \<Rightarrow> [] | x # rest \<Rightarrow> x @ concat (map (\<lambda>y. sep @ y) rest))"

definition concatenated_prompt_history_spec :: "store \<Rightarrow> pystr \<Rightarrow> pystr" where
  "concatenated_prompt_history_spec ss session_id =
     (case map_of ss session_id of
        None \<Rightarrow> []
      | Some s \<Rightarrow> separated (py ''. '') (map text_of (filter is_user_prompt (messages s))))"

section \<open>The scans of the store\<close>

lemma dict_get_eq_Some: "(dict_get e None = Some x) = (e = Some (Some x))"
  by (cases e) (auto simp: dict_get_def)

lemma find_in_messages_none:
  "\<forall>m\<in>set ms. m_id m \<noteq> Some (Some mid) \<Longrightarrow> find_in_messages sid all_msgs i ms mid = None"
  by (induction ms arbitrary: i) (auto simp: dict_get_eq_Some)

lemma find_in_messages_hit:
  "\<forall>m'\<in>set ms1. m_id m' \<noteq> Some (Some mid) \<Longrightarrow>
   find_in_messages sid all_msgs i (ms1 @ rest) mid =
     find_in_messages sid all_msgs (i + length ms1) rest mid"
  by (induction ms1 arbitrary: i) (auto simp: dict_get_eq_Some)

lemma find_message_prompt_skip:
  "\<forall>(k, s)\<in>set before. \<forall>m\<in>set (messages s). m_id m \<noteq> Some (Some mid) \<Longrightarrow>
   find_message_prompt (before @ rest) mid = find_message_prompt rest mid"
  by (induction before) (auto simp: find_in_messages_none)

lemma update_status_in_messages_none:
  "\<forall>m\<in>set ms. m_id m \<noteq> Some (Some mid) \<Longrightarrow> update_status_in_messages ms mid status = None"
  by (induction ms) (auto simp: dict_get_eq_Some)

lemma update_status_in_messages_hit:
  "\<forall>m'\<in>set ms1. m_id m' \<noteq> Some (Some mid) \<Longrightarrow> m_id m = Some (Some mid) \<Longrightarrow>
   update_status_in_messages (ms1 @ m # ms2) mid status =
     Some (ms1 @ m\<lparr>m_status := Some (Some status)\<rparr> # ms2)"
  by (induction ms1) (auto simp: dict_get_eq_Some)

lemma update_message_status_skip:
  "\<forall>(k, s)\<in>set before. \<forall>m\<in>set (messages s). m_id m \<noteq> Some (Some mid) \<Longrightarrow>
   update_message_status (before @ rest) mid status =
     (before @ fst (update_message_status rest mid status), snd (update_message_status rest mid status))"
  by (induction before) (auto simp: update_status_in_messages_none split: prod.splits)

text \<open>
  C3. Let \<open>message_id\<close> be the id of message \<open>m\<close> of session \<open>sid\<close>, with no earlier
  message of the store (in the order of the scan) carrying that id, and let every
  message of that session have the keys \<open>sender\<close> and \<open>text\<close>, as every message
  written by the routes has. Then \<open>find_message_prompt\<close> returns \<open>sid\<close> with the text of
  the message just before \<open>m\<close> when there is one and its sender is \<open>"user"\<close>, and with
  the text of \<open>m\<close> otherwise. For an id that no message of the store carries it returns
  \<open>None\<close>.
\<close>

theorem resolve_prompt_for_regeneration:
  "(ss = before @ (sid, s) # after \<and> messages s = earlier @ m # later
      \<and> m_id m = Some (Some message_id)
      \<and> (\<forall>(k, s')\<in>set before. \<forall>m'\<in>set (messages s'). m_id m' \<noteq> Some (Some message_id))
      \<and> (\<forall>m'\<in>set earlier. m_id m' \<noteq> Some (Some message_id))
      \<and> (\<forall>m'\<in>set (messages s). m_sender m' \<noteq> None \<and> m_text m' \<noteq> None)
    \<longrightarrow> (\<exists>t. find_message_prompt ss message_id = Inr (Some (sid, t))
           \<and> Some t = (if earlier \<noteq> [] \<and> m_sender (last earlier) = Some (Some (py ''user''))
                       then m_text (last earlier) else m_text m)))
   \<and> ((\<forall>(k, s')\<in>set ss. \<forall>m'\<in>set (messages s'). m_id m' \<noteq> Some (Some message_id))
    \<longrightarrow> find_message_prompt ss message_id = Inr None)"
proof (intro conjI impI)
  assume a: "ss = before @ (sid, s) # after \<and> messages s = earlier @ m # later
      \<and> m_id m = Some (Some message_id)
      \<and> (\<forall>(k, s')\<in>set before. \<forall>m'\<in>set (messages s'). m_id m' \<noteq> Some (Some message_id))
      \<and> (\<forall>m'\<in>set earlier. m_id m' \<noteq> Some (Some message_id))
      \<and> (\<forall>m'\<in>set (messages s). m_sender m' \<noteq> None \<and> m_text m' \<noteq> None)"
  then have skip: "find_message_prompt ss message_id
      = find_message_prompt ((sid, s) # after) message_id"
    by (simp add: find_message_prompt_skip)
  from a have inner: "find_in_messages sid (messages s) 0 (messages s) message_id
      = find_in_messages sid (earlier @ m # later) (length earlier) (m # later) message_id"
    using find_in_messages_hit [of earlier message_id sid "earlier @ m # later" 0 "m # later"] by simp
  from a obtain tm where tm: "m_text m = Some tm" by auto
  show "\<exists>t. find_message_prompt ss message_id = Inr (Some (sid, t))
           \<and> Some t = (if earlier \<noteq> [] \<and> m_sender (last earlier) = Some (Some (py ''user''))
                       then m_text (last earlier) else m_text m)"
  proof (cases "earlier = []")
    case True
    with a skip inner tm show ?thesis
      by (simp add: dict_get_eq_Some dict_get_def)
  next
    case False
    then have prev: "(earlier @ m # later) ! (length earlier - 1) = last earlier"
      by (simp add: nth_append last_conv_nth)
    from False a obtain sp tp where sp: "m_sender (last earlier) = Some sp"
      and tp: "m_text (last earlier) = Some tp"
      by (metis last_in_set UnCI set_append not_Some_eq)
    from False a skip inner tm prev sp tp show ?thesis
      by (simp add: dict_get_eq_Some dict_get_def dict_index_def)
  qed
next
  assume "\<forall>(k, s')\<in>set ss. \<forall>m'\<in>set (messages s'). m_id m' \<noteq> Some (Some message_id)"
  then show "find_message_prompt ss message_id = Inr None"
    using find_message_prompt_skip [of ss message_id "[]"] by simp
qed

theorem resolve_prompt_for_regeneration_witness:
  "find_message_prompt
     [(py ''s0'', \<lparr>title = py ''dog'', messages = [boom_message (py ''c0'')]\<rparr>),
      (py ''s1'', \<lparr>title = py ''cat'', messages =
         [user_message (py ''u1'') (py ''cat''),
          bot_message (py ''b1'') (py ''generated/x.png'') (py ''caption'')]\<rparr>)]
     (py ''b1'') = Inr (Some (py ''s1'', Some (py ''cat'')))
   \<and> find_message_prompt
     [(py ''s1'', \<lparr>title = py ''cat'', messages =
         [bot_message (py ''b1'') (py ''generated/x.png'') (py ''caption'')]\<rparr>)]
     (py ''b1'') = Inr (Some (py ''s1'', Some (py ''caption'')))
   \<and> find_message_prompt
     [(py ''s1'', \<lparr>title = py ''cat'', messages =
         [bot_message (py ''b1'') (py ''generated/x.png'') (py ''caption'')]\<rparr>)]
     (py ''zz'') = Inr None"
  using resolve_prompt_for_regeneration
    [where ss = "[(py ''s0'', \<lparr>title = py ''dog'', messages = [boom_message (py ''c0'')]\<rparr>),
      (py ''s1'', \<lparr>title = py ''cat'', messages =
         [user_message (py ''u1'') (py ''cat''),
          bot_message (py ''b1'') (py ''generated/x.png'') (py ''caption'')]\<rparr>)]"
       and before = "[(py ''s0'', \<lparr>title = py ''dog'', messages = [boom_message (py ''c0'')]\<rparr>)]"
       and sid = "py ''s1''"
       and s = "\<lparr>title = py ''cat'', messages =
         [user_message (py ''u1'') (py ''cat''),
          bot_message (py ''b1'') (py ''generated/x.png'') (py ''caption'')]\<rparr>"
       and after = "[]" and earlier = "[user_message (py ''u1'') (py ''cat'')]"
       and m = "bot_message (py ''b1'') (py ''generated/x.png'') (py ''caption'')"
       and later = "[]" and message_id = "py ''b1''"]
    resolve_prompt_for_regeneration
    [where ss = "[(py ''s1'', \<lparr>title = py ''cat'', messages =
         [bot_message (py ''b1'') (py ''generated/x.png'') (py ''caption'')]\<rparr>)]"
       and before = "[]" and sid = "py ''s1''"
       and s = "\<lparr>title = py ''cat'', messages =
         [bot_message (py ''b1'') (py ''generated/x.png'') (py ''caption'')]\<rparr>"
       and after = "[]" and earlier = "[]"
       and m = "bot_message (py ''b1'') (py ''generated/x.png'') (py ''caption'')"
       and later = "[]" and message_id = "py ''b1''"]
    resolve_prompt_for_regeneration
    [where ss = "[(py ''s1'', \<lparr>title = py ''cat'', messages =
         [bot_message (py ''b1'') (py ''generated/x.png'') (py ''caption'')]\<rparr>)]"
       and message_id = "py ''zz''"]
  by (simp add: user_message_def bot_message_def boom_message_def py_def)

text \<open>
  C8. \<open>update_message_status\<close> sets the status of the first message of the scan that
  carries \<open>message_id\<close>, changes nothing else and returns \<open>True\<close>. When no message of
  the store carries the id, it returns \<open>False\<close> and the store is unchanged, and the
  route \<open>update_status\<close> answers 404 and leaves the store and the sessions file as they
  were: \<open>save\<close> is not called.
\<close>

theorem set_status:
  "(ss = before @ (sid, s) # after \<and> messages s = earlier @ m # later
      \<and> m_id m = Some (Some message_id)
      \<and> (\<forall>(k, s')\<in>set before. \<forall>m'\<in>set (messages s'). m_id m' \<noteq> Some (Some message_id))
      \<and> (\<forall>m'\<in>set earlier. m_id m' \<noteq> Some (Some message_id))
    \<longrightarrow> update_message_status ss message_id status =
          (before @ (sid, s\<lparr>messages := earlier @ m\<lparr>m_status := Some (Some status)\<rparr> # later\<rparr>)
             # after, True))
   \<and> ((\<forall>(k, s')\<in>set (sessions st). \<forall>m'\<in>set (messages s'). m_id m' \<noteq> Some (Some message_id))
    \<longrightarrow> update_message_status (sessions st) message_id status = (sessions st, False)
        \<and> (message_id \<noteq> [] \<and> status \<noteq> [] \<longrightarrow>
             update_status w (Some message_id) (Some status) st =
               ((ErrorBody (py ''Message not found''), 404), st)))"
proof (intro conjI impI)
  assume a: "ss = before @ (sid, s) # after \<and> messages s = earlier @ m # later
      \<and> m_id m = Some (Some message_id)
      \<and> (\<forall>(k, s')\<in>set before. \<forall>m'\<in>set (messages s'). m_id m' \<noteq> Some (Some message_id))
      \<and> (\<forall>m'\<in>set earlier. m_id m' \<noteq> Some (Some message_id))"
  then have "update_status_in_messages (messages s) message_id status
      = Some (earlier @ m\<lparr>m_status := Some (Some status)\<rparr> # later)"
    by (simp add: update_status_in_messages_hit)
  then have "update_message_status ((sid, s) # after) message_id status
      = ((sid, s\<lparr>messages := earlier @ m\<lparr>m_status := Some (Some status)\<rparr> # later\<rparr>) # after, True)"
    by simp
  with a show "update_message_status ss message_id status =
          (before @ (sid, s\<lparr>messages := earlier @ m\<lparr>m_status := Some (Some status)\<rparr> # later\<rparr>)
             # after, True)"
    using update_message_status_skip [of before message_id "(sid, s) # after" status] by simp
next
  assume n: "\<forall>(k, s')\<in>set (sessions st). \<forall>m'\<in>set (messages s'). m_id m' \<noteq> Some (Some message_id)"
  then show u: "update_message_status (sessions st) message_id status = (sessions st, False)"
    using update_message_status_skip [of "sessions st" message_id "[]" status] by simp
  assume "message_id \<noteq> [] \<and> status \<noteq> []"
  with u show "update_status w (Some message_id) (Some status) st =
               ((ErrorBody (py ''Message not found''), 404), st)"
    by (simp add: update_status_def truthy_def)
qed

theorem set_status_witness:
  "update_message_status
     [(py ''s1'', \<lparr>title = py ''cat'', messages =
         [user_message (py ''u1'') (py ''cat''),
          bot_message (py ''b1'') (py ''generated/x.png'') (py ''caption'')]\<rparr>)]
     (py ''b1'') (py ''like'')
   = ([(py ''s1'', \<lparr>title = py ''cat'', messages =
         [user_message (py ''u1'') (py ''cat''),
          (bot_message (py ''b1'') (py ''generated/x.png'') (py ''caption''))
            \<lparr>m_status := Some (Some (py ''like''))\<rparr>]\<rparr>)], True)
   \<and> update_status utf8_deployment (Some (py ''zz'')) (Some (py ''like''))
       \<lparr>sessions = [(py ''s1'', \<lparr>title = py ''cat'', messages =
           [user_message (py ''u1'') (py ''cat'')]\<rparr>)],
        persisted = NoFile\<rparr>
     = ((ErrorBody (py ''Message not found''), 404),
        \<lparr>sessions = [(py ''s1'', \<lparr>title = py ''cat'', messages =
           [user_message (py ''u1'') (py ''cat'')]\<rparr>)],
         persisted = NoFile\<rparr>)"
  using set_status
    [where ss = "[(py ''s1'', \<lparr>title = py ''cat'', messages =
         [user_message (py ''u1'') (py ''cat''),
          bot_message (py ''b1'') (py ''generated/x.png'') (py ''caption'')]\<rparr>)]"
       and before = "[]" and sid = "py ''s1''"
       and s = "\<lparr>title = py ''cat'', messages =
         [user_message (py ''u1'') (py ''cat''),
          bot_message (py ''b1'') (py ''generated/x.png'') (py ''caption'')]\<rparr>"
       and after = "[]" and earlier = "[user_message (py ''u1'') (py ''cat'')]"
       and m = "bot_message (py ''b1'') (py ''generated/x.png'') (py ''caption'')"
       and later = "[]" and message_id = "py ''b1''" and status = "py ''like''"
       and st = "\<lparr>sessions = [], persisted = NoFile\<rparr>"]
    set_status
    [where st = "\<lparr>sessions = [(py ''s1'', \<lparr>title = py ''cat'', messages =
           [user_message (py ''u1'') (py ''cat'')]\<rparr>)], persisted = NoFile\<rparr>"
       and message_id = "py ''zz''" and status = "py ''like''" and w = utf8_deployment]
  by (simp add: user_message_def bot_message_def py_def)

section \<open>Sessions and their prompt history\<close>

lemma update_new_key:
  "k \<notin> fst ` set al \<Longrightarrow> AList.update k v al = al @ [(k, v)]"
  by (induction al) auto

lemma keys_update_old_key:
  "k \<in> fst ` set al \<Longrightarrow> map fst (AList.update k v al) = map fst al"
  by (induction al) auto

lemma upt_32:
  "[0..<32] = [0, 1, 2, 3, 4, 5, 6, 7, 8, 9, 10, 11, 12, 13, 14, 15, 16, 17, 18, 19, 20, 21,
               22, 23, 24, 25, 26, 27, 28, 29, 30, 31]"
  by code_simp

lemma short_id_digits:
  "short_id u = map (\<lambda>i. hexdigit (u div 16 ^ i mod 16)) [31, 30, 29, 28, 27, 26, 25, 24]"
  by (simp add: short_id_def hex_width_def upt_32)

lemma hex_width_2: "hex_width 2 n = [hexdigit (n div 16 mod 16), hexdigit (n mod 16)]"
proof -
  have "[0..<2] = [0, 1]" by code_simp
  then show ?thesis by (simp add: hex_width_def)
qed

lemma hex_width_4:
  "hex_width 4 n = map (\<lambda>i. hexdigit (n div 16 ^ i mod 16)) [3, 2, 1, 0]"
proof -
  have "[0..<4] = [0, 1, 2, 3]" by code_simp
  then show ?thesis by (simp add: hex_width_def)
qed

lemma hexdigit_is_hexdigit: "n < 16 \<Longrightarrow> is_hexdigit (hexdigit n)"
  by (auto simp: hexdigit_def is_hexdigit_def)

lemma length_short_id: "length (short_id u) = 8"
  by (simp add: short_id_digits)

lemma short_id_hex: "list_all is_hexdigit (short_id u)"
  by (simp add: short_id_digits hexdigit_is_hexdigit)

text \<open>
  C9, as the specification states it, fails: the id that \<open>create\<close> returns need not be
  fresh. The code does not compare the draw with the ids of the store, and a draw
  whose first eight digits are an id of the store replaces the session under that id.
\<close>

theorem create_fresh_counterexample:
  "get [(py ''01234567'', \<lparr>title = py ''dog'', messages = [user_message (py ''u1'') (py ''dog'')]\<rparr>)]
      (py ''01234567'')
     = Some \<lparr>title = py ''dog'', messages = [user_message (py ''u1'') (py ''dog'')]\<rparr>
   \<and> create
        [(py ''01234567'', \<lparr>title = py ''dog'', messages = [user_message (py ''u1'') (py ''dog'')]\<rparr>)]
        0x0123456789abcdef0123456789abcdef (py ''cat'')
     = (py ''01234567'', [(py ''01234567'', \<lparr>title = py ''cat'', messages = []\<rparr>)])"
  by (simp add: get_def create_def Let_def short_id_digits hexdigit_def py_def)

text \<open>
  C9, amended. For every draw and every prompt, \<open>create\<close> returns the first eight
  hexadecimal digits of the uuid drawn, and the store then holds under that id a
  session with no messages whose title is the prompt when it has at most 30 characters,
  and its first 30 characters followed by \<open>...\<close> when it is longer. The other sessions
  are as before. An id that is not yet a key of the store is added at its end; an id
  that is one keeps its place, and the session that was stored under it is replaced.
\<close>

theorem create_session:
  "(case create ss u prompt of
      (session_id, ss') \<Rightarrow>
        session_id = take 8 (hex_width 32 u) \<and> length session_id = 8
        \<and> list_all is_hexdigit session_id
        \<and> get ss' session_id =
              Some \<lparr>title = (if length prompt > 30 then take 30 prompt @ py ''...'' else prompt),
                    messages = []\<rparr>
        \<and> (\<forall>k. k \<noteq> session_id \<longrightarrow> get ss' k = get ss k)
        \<and> (session_id \<notin> fst ` set ss \<longrightarrow>
              ss' = ss @ [(session_id,
                \<lparr>title = (if length prompt > 30 then take 30 prompt @ py ''...'' else prompt),
                 messages = []\<rparr>)])
        \<and> (session_id \<in> fst ` set ss \<longrightarrow> map fst ss' = map fst ss))"
  using length_short_id [of u] short_id_hex [of u]
  by (auto simp: create_def Let_def get_def AList.update_conv' update_new_key
      keys_update_old_key short_id_def)

theorem create_session_witness:
  "create [] 0x0123456789abcdef0123456789abcdef
        (py ''a very long founding prompt exceeding thirty characters'')
     = (py ''01234567'',
        [(py ''01234567'', \<lparr>title = py ''a very long founding prompt ex...'', messages = []\<rparr>)])
   \<and> create [] 0x0123456789abcdef0123456789abcdef (py ''a cat'')
     = (py ''01234567'', [(py ''01234567'', \<lparr>title = py ''a cat'', messages = []\<rparr>)])
   \<and> map fst (snd (create [(py ''01234567'', \<lparr>title = py ''dog'', messages = []\<rparr>)]
        0x0123456789abcdef0123456789abcdef (py ''a cat''))) = [py ''01234567'']"
proof -
  have t: "take 8 (hex_width 32 0x0123456789abcdef0123456789abcdef) = py ''01234567''"
    using short_id_digits [of "0x0123456789abcdef0123456789abcdef"]
    by (simp add: short_id_def hexdigit_def py_def)
  have l: "take 30 (py ''a very long founding prompt exceeding thirty characters'') @ py ''...''
      = py ''a very long founding prompt ex...''"
    by (simp add: py_def)
  show ?thesis
    using t l
      create_session [where u = "0x0123456789abcdef0123456789abcdef" and ss = "[]"
        and prompt = "py ''a very long founding prompt exceeding thirty characters''"]
      create_session [where u = "0x0123456789abcdef0123456789abcdef" and ss = "[]"
        and prompt = "py ''a cat''"]
      create_session [where u = "0x0123456789abcdef0123456789abcdef"
        and ss = "[(py ''01234567'', \<lparr>title = py ''dog'', messages = []\<rparr>)]"
        and prompt = "py ''a cat''"]
    by (auto simp: py_def split: prod.splits)
qed

lemma join_separated: "join sep xs = separated sep xs"
  by (induction sep xs rule: join.induct) (auto simp: separated_def)

lemma user_prompts_filter: "user_prompts ms = map text_of (filter is_user_prompt ms)"
proof (induction ms)
  case Nil
  then show ?case by simp
next
  case (Cons m ms)
  show ?case
  proof (cases "m_sender m")
    case None
    with Cons show ?thesis by (simp add: is_user_prompt_def dict_get_def)
  next
    case sender: (Some sv)
    show ?thesis
    proof (cases "m_text m")
      case None
      with Cons show ?thesis by (simp add: is_user_prompt_def dict_get_def truthy_def)
    next
      case (Some tv)
      with Cons sender show ?thesis
        by (cases tv) (auto simp: is_user_prompt_def dict_get_def truthy_def text_of_def)
    qed
  qed
qed

text \<open>
  C4. \<open>get_all_prompts\<close> computes the history the specification describes: the texts of
  the user-sent messages with a non-empty text, in the order of the session, joined
  with \<open>". "\<close>. An absent session id and a session without messages give the empty
  string. The user messages \<open>a\<close>, the empty text and \<open>b\<close>, with a bot message between
  them, give \<open>a. b\<close>.
\<close>

theorem concatenated_prompt_history:
  "get_all_prompts ss session_id = concatenated_prompt_history_spec ss session_id
   \<and> (get ss session_id = None \<longrightarrow> get_all_prompts ss session_id = [])
   \<and> (\<forall>s. get ss session_id = Some s \<and> messages s = [] \<longrightarrow> get_all_prompts ss session_id = [])
   \<and> get_all_prompts
        [(sid, \<lparr>title = t, messages =
            [user_message (py ''u1'') (py ''a''),
             bot_message (py ''b1'') (py ''generated/x.png'') (py ''caption''),
             user_message (py ''u2'') [],
             user_message (py ''u3'') (py ''b'')]\<rparr>)] sid = py ''a. b''"
proof (intro conjI)
  show "get_all_prompts ss session_id = concatenated_prompt_history_spec ss session_id"
    by (simp add: get_all_prompts_def concatenated_prompt_history_spec_def join_separated
        user_prompts_filter split: option.splits)
  show "get ss session_id = None \<longrightarrow> get_all_prompts ss session_id = []"
    by (simp add: get_all_prompts_def get_def)
  show "\<forall>s. get ss session_id = Some s \<and> messages s = [] \<longrightarrow> get_all_prompts ss session_id = []"
    by (simp add: get_all_prompts_def get_def)
  show "get_all_prompts
        [(sid, \<lparr>title = t, messages =
            [user_message (py ''u1'') (py ''a''),
             bot_message (py ''b1'') (py ''generated/x.png'') (py ''caption''),
             user_message (py ''u2'') [],
             user_message (py ''u3'') (py ''b'')]\<rparr>)] sid = py ''a. b''"
    by (simp add: get_all_prompts_def user_message_def bot_message_def dict_get_def truthy_def
        py_def)
qed

theorem concatenated_prompt_history_witness:
  "get_all_prompts [(py ''s1'', \<lparr>title = py ''cat'', messages = []\<rparr>)] (py ''s1'') = []
   \<and> get_all_prompts [(py ''s1'', \<lparr>title = py ''cat'', messages = []\<rparr>)] (py ''s2'') = []
   \<and> get_all_prompts
        [(py ''s1'', \<lparr>title = py ''cat'', messages =
            [user_message (py ''u1'') (py ''cat''), boom_message (py ''c1''),
             user_message (py ''u2'') (py ''hat'')]\<rparr>)] (py ''s1'')
       = py ''cat. hat''"
  using concatenated_prompt_history
      [where ss = "[(py ''s1'', \<lparr>title = py ''cat'', messages = []\<rparr>)]"
         and session_id = "py ''s1''"]
    concatenated_prompt_history
      [where ss = "[(py ''s1'', \<lparr>title = py ''cat'', messages = []\<rparr>)]"
         and session_id = "py ''s2''"]
    concatenated_prompt_history
      [where ss = "[(py ''s1'', \<lparr>title = py ''cat'', messages =
            [user_message (py ''u1'') (py ''cat''), boom_message (py ''c1''),
             user_message (py ''u2'') (py ''hat'')]\<rparr>)]" and session_id = "py ''s1''"]
  by (simp add: get_def concatenated_prompt_history_spec_def separated_def is_user_prompt_def
      text_of_def user_message_def boom_message_def py_def)

section \<open>The routes\<close>

lemma get_add_message:
  "get (add_message ss sid msg) k =
     (if k = sid then map_option (\<lambda>s. s\<lparr>messages := messages s @ [msg]\<rparr>) (get ss sid)
      else get ss k)"
proof (cases "sid \<in> fst ` set ss")
  case True
  then show ?thesis
    by (auto simp: add_message_def get_def AList.map_of_map_entry split: option.splits)
next
  case False
  then have "map_of ss sid = None" by (simp add: map_of_eq_None_iff)
  with False show ?thesis by (simp add: add_message_def get_def)
qed

lemma keys_add_message: "map fst (add_message ss sid msg) = map fst ss"
proof -
  have "map fst (AList.map_entry sid f ss) = map fst ss" for f :: "session \<Rightarrow> session"
    by (induction ss) auto
  then show ?thesis by (simp add: add_message_def)
qed

lemma add_message_split:
  "sid \<notin> fst ` set before \<Longrightarrow>
   add_message (before @ (sid, s) # after) sid msg
     = before @ (sid, s\<lparr>messages := messages s @ [msg]\<rparr>) # after"
proof -
  assume "sid \<notin> fst ` set before"
  then have "AList.map_entry sid f (before @ (sid, s) # after) = before @ (sid, f s) # after"
    for f :: "session \<Rightarrow> session"
    by (induction before) auto
  then show ?thesis by (simp add: add_message_def)
qed

lemma get_split:
  "get ss sid = Some s \<Longrightarrow> \<exists>before after. ss = before @ (sid, s) # after \<and> sid \<notin> fst ` set before"
proof (induction ss)
  case Nil
  then show ?case by (simp add: get_def)
next
  case (Cons p ss)
  show ?case
  proof (cases "fst p = sid")
    case True
    with Cons.prems have "p # ss = [] @ (sid, s) # ss" by (cases p) (simp add: get_def)
    then show ?thesis by (metis empty_iff image_empty list.set(1))
  next
    case False
    with Cons.prems have "get ss sid = Some s" by (cases p) (simp add: get_def)
    with Cons.IH obtain before after where "ss = before @ (sid, s) # after"
      and "sid \<notin> fst ` set before" by blast
    with False have "p # ss = (p # before) @ (sid, s) # after \<and> sid \<notin> fst ` set (p # before)"
      by auto
    then show ?thesis by blast
  qed
qed

lemma set_update_subset: "set (AList.update k v al) \<subseteq> insert (k, v) (set al)"
  by (induction al) auto

subsection \<open>Printing\<close>

lemma can_print_append [simp]: "can_print w (a @ b) = (can_print w a \<and> can_print w b)"
  by (simp add: can_print_def)

lemma can_print_Nil [simp]: "can_print w []"
  by (simp add: can_print_def)

lemma can_print_ascii: "\<forall>c\<in>set text. c < 128 \<Longrightarrow> can_print w text"
  by (simp add: can_print_def list_all_iff)

lemma hexdigit_ascii: "n < 16 \<Longrightarrow> hexdigit n < 128"
  by (simp add: hexdigit_def)

lemma hex_width_ascii: "c \<in> set (hex_width k n) \<Longrightarrow> c < 128"
  by (auto simp: hex_width_def hexdigit_ascii)

lemma can_print_short_id [simp]: "can_print w (short_id u)"
  by (rule can_print_ascii) (auto simp: short_id_def dest: in_set_takeD hex_width_ascii)

lemma py_print_None [simp]: "(py_print w text = None) = can_print w text"
  by (simp add: py_print_def)

lemma py_print_ok [simp]: "can_print w text \<Longrightarrow> py_print w text = None"
  by (simp add: py_print_def)



lemma can_print_literals [simp]:
  "can_print w (py ''Prompt: '')"
  "can_print w (py ''Session ID: '')"
  "can_print w (py ''None'')"
  "can_print w (py ''Using existing session. Full prompt: '')"
  "can_print w (py ''...'')"
  "can_print w (py ''Created new session: '')"
  "can_print w (py ''Image generation complete: '')"
  "can_print w (py ''Error message: '')"
  "can_print w (py ''/static/'')"
  "can_print w (py ''Image generation failed: '')"
  by (simp_all add: can_print_def py_def)


subsection \<open>The sessions file\<close>

lemma sessions_save [simp]: "sessions (snd (save st w)) = sessions st"
  by (simp add: save_def split: io.splits)

lemma save_returned:
  "save st w = (None, st') \<Longrightarrow>
   sessions st' = sessions st
   \<and> persisted st' = (case file_write w of Written \<Rightarrow> Document (sessions st)
                                          | IOError left msg \<Rightarrow> left)"
  by (auto simp: save_def split: io.splits if_splits)

lemma save_raised:
  "save st w = (Some e, st') \<Longrightarrow>
   sessions st' = sessions st
   \<and> (file_write w = Written \<longrightarrow> \<not> encodable_store (sessions st) \<and> persisted st' = Corrupt)"
  by (auto simp: save_def split: io.splits if_splits)

lemma save_written:
  "file_write w = Written \<Longrightarrow> encodable_store (sessions st) \<Longrightarrow>
   save st w = (None, st\<lparr>persisted := Document (sessions st)\<rparr>)"
  by (simp add: save_def)

subsection \<open>The run of \<open>generate_image\<close>\<close>

lemma session_logic_existing:
  "sid \<noteq> [] \<Longrightarrow> get ss sid = Some s \<Longrightarrow>
   session_logic ss u (Some sid) prompt_new =
     (sid,
      if get_all_prompts ss sid \<noteq> [] then get_all_prompts ss sid @ py ''. '' @ prompt_new
      else prompt_new,
      py ''Using existing session. Full prompt: ''
        @ take 100 (if get_all_prompts ss sid \<noteq> []
                    then get_all_prompts ss sid @ py ''. '' @ prompt_new else prompt_new)
        @ py ''...'',
      ss)"
  by (simp add: Let_def)

lemma session_logic_new:
  "session_id = None \<or> session_id = Some [] \<or> (\<exists>k. session_id = Some k \<and> get ss k = None) \<Longrightarrow>
   session_logic ss u session_id prompt_new =
     (short_id u, prompt_new, py ''Created new session: '' @ short_id u,
      AList.update (short_id u)
        \<lparr>title = take 30 prompt_new @ (if length prompt_new > 30 then py ''...'' else []),
         messages = []\<rparr> ss)"
  by (auto simp: create_def Let_def)

lemma session_logic_cases:
  "(\<exists>sid s. session_id = Some sid \<and> sid \<noteq> [] \<and> get ss sid = Some s)
   \<or> (session_id = None \<or> session_id = Some [] \<or> (\<exists>k. session_id = Some k \<and> get ss k = None))"
  by (cases session_id) auto

lemma session_logic_present:
  "session_logic ss u session_id prompt_new = (sid, p, line, ss') \<Longrightarrow> \<exists>s. get ss' sid = Some s"
  using session_logic_cases [of session_id ss]
  by (auto simp: session_logic_existing session_logic_new get_def AList.update_conv'
      simp del: session_logic.simps)


lemma except_clause_cases:
  "except_clause w st e =
     (if can_print w (str_of_error e) then (generation_failed e, st)
      else ((Unhandled (UnicodeEncodeError
               (encode_error_text w (py ''Error message: '' @ str_of_error e))), 500), st))"
  by (simp add: except_clause_def py_print_def)

lemma except_clause_state [simp]: "snd (except_clause w st e) = st"
  by (simp add: except_clause_cases)

lemma except_clause_not_ok:
  "except_clause w st e \<noteq> ((GenerateOk a b c, n), st')"
  by (simp add: except_clause_cases generation_failed_def)

lemma generate_image_run:
  "req_prompt req = Some (Some raw) \<Longrightarrow> strip raw \<noteq> [] \<Longrightarrow> can_print w (strip raw) \<Longrightarrow>
   can_print w (str_of_pyval (req_session_id req)) \<Longrightarrow>
   session_logic (sessions st) (u_session d) (req_session_id req) (strip raw)
     = (sid, p, line, ss') \<Longrightarrow>
   can_print w line \<Longrightarrow>
   generate_image generate d w req st =
     (case generate p of
        Inl e \<Rightarrow> except_clause w (st\<lparr>sessions := ss'\<rparr>) e
      | Inr image_path \<Rightarrow>
          finish_generation w d (st\<lparr>sessions := ss'\<rparr>) sid (strip raw) p image_path)"
  by (simp add: generate_image_def dict_get_def Let_def split: sum.splits)

lemma generate_image_ok:
  assumes "generate_image generate d w req st = ((GenerateOk a b c, n), st')"
    and "req_prompt req = Some (Some raw)"
  shows "strip raw \<noteq> [] \<and> can_print w (strip raw)
     \<and> can_print w (str_of_pyval (req_session_id req))
     \<and> (\<exists>sid p line ss' image_path.
          session_logic (sessions st) (u_session d) (req_session_id req) (strip raw)
            = (sid, p, line, ss')
          \<and> can_print w line \<and> generate p = Inr image_path
          \<and> finish_generation w d (st\<lparr>sessions := ss'\<rparr>) sid (strip raw) p image_path
              = ((GenerateOk a b c, n), st'))"
  using assms
  by (auto simp: generate_image_def dict_get_def Let_def except_clause_not_ok
      split: option.splits if_splits prod.splits sum.splits)

lemma finish_generation_ok:
  assumes "finish_generation w d st sid prompt_new p image_path = ((GenerateOk a b c, n), st')"
  shows "a = sid \<and> b = py ''/static/'' @ image_path \<and> c = short_id (u_bot d) \<and> n = 200
     \<and> can_print w image_path
     \<and> save (st\<lparr>sessions :=
          add_message
            (add_message
               (add_message (sessions st) sid (user_message (short_id (u_user d)) prompt_new))
               sid
               (bot_message (short_id (u_bot d)) image_path
                  (py ''Image is generated from prompt:'' @ [10] @ p)))
            sid (boom_message (short_id (u_boom d)))\<rparr>) w = (None, st')"
  using assms
  by (auto simp: finish_generation_def Let_def except_clause_not_ok
      split: option.splits if_splits prod.splits)

lemma get_add_three:
  "get ss sid = Some s \<Longrightarrow>
   get (add_message (add_message (add_message ss sid a) sid b) sid c) sid
     = Some (s\<lparr>messages := messages s @ [a, b, c]\<rparr>)"
  by (simp add: get_add_message)

text \<open>
  C5. A run of \<open>generate_image\<close> that answers with success has called the capability
  on the effective prompt and got an image path. The session of the response then
  holds its earlier messages (none for a session the run created) followed by exactly
  three new ones: the user message with the stripped prompt of the request as text, the
  bot message with the image reference, the caption built from the effective prompt and
  the status \<open>None\<close>, and the closing bot message without image. The response carries
  the session id, the image reference and the id of the second message. The other
  sessions are as before.
\<close>

theorem new_generation_messages:
  "req_prompt req = Some (Some raw)
   \<and> generate_image generate d w req st = ((GenerateOk sid image_url anchor, 200), st') \<longrightarrow>
     (\<exists>image_path prompt prior t.
        strip raw \<noteq> [] \<and> generate prompt = Inr image_path
        \<and> image_url = py ''/static/'' @ image_path \<and> anchor = short_id (u_bot d)
        \<and> get (sessions st') sid = Some \<lparr>title = t, messages = prior @
             [\<lparr>m_id = Some (Some (short_id (u_user d))), m_sender = Some (Some (py ''user'')),
               m_text = Some (Some (strip raw)), m_image_url = None, m_status = None\<rparr>,
              \<lparr>m_id = Some (Some (short_id (u_bot d))), m_sender = Some (Some (py ''bot'')),
               m_text = Some (Some (py ''Image is generated from prompt:'' @ [10] @ prompt)),
               m_image_url = Some (Some image_url), m_status = Some None\<rparr>,
              \<lparr>m_id = Some (Some (short_id (u_boom d))), m_sender = Some (Some (py ''bot'')),
               m_text = Some (Some boom_text), m_image_url = None, m_status = None\<rparr>]\<rparr>
        \<and> ((\<exists>k. req_session_id req = Some k \<and> k \<noteq> [] \<and> get (sessions st) k \<noteq> None) \<longrightarrow>
               req_session_id req = Some sid
               \<and> get (sessions st) sid = Some \<lparr>title = t, messages = prior\<rparr>
               \<and> prompt = (if get_all_prompts (sessions st) sid \<noteq> []
                            then get_all_prompts (sessions st) sid @ py ''. '' @ strip raw
                            else strip raw))
        \<and> (\<not> (\<exists>k. req_session_id req = Some k \<and> k \<noteq> [] \<and> get (sessions st) k \<noteq> None) \<longrightarrow>
               sid = short_id (u_session d) \<and> prior = [] \<and> prompt = strip raw)
        \<and> (\<forall>k. k \<noteq> sid \<longrightarrow> get (sessions st') k = get (sessions st) k))"
proof
  assume "req_prompt req = Some (Some raw)
   \<and> generate_image generate d w req st = ((GenerateOk sid image_url anchor, 200), st')"
  then have a: "req_prompt req = Some (Some raw)"
    "generate_image generate d w req st = ((GenerateOk sid image_url anchor, 200), st')"
    by blast+
  from generate_image_ok [OF a(2) a(1)] obtain sid0 p line ss' image_path where
    nonempty: "strip raw \<noteq> []"
    and sl: "session_logic (sessions st) (u_session d) (req_session_id req) (strip raw)
      = (sid0, p, line, ss')"
    and ok: "generate p = Inr image_path"
    and fin: "finish_generation w d (st\<lparr>sessions := ss'\<rparr>) sid0 (strip raw) p image_path
      = ((GenerateOk sid image_url anchor, 200), st')"
    by blast
  let ?u = "user_message (short_id (u_user d)) (strip raw)"
  let ?b = "bot_message (short_id (u_bot d)) image_path
              (py ''Image is generated from prompt:'' @ [10] @ p)"
  let ?c = "boom_message (short_id (u_boom d))"
  from finish_generation_ok [OF fin]
  have resp: "sid = sid0" "image_url = py ''/static/'' @ image_path"
    "anchor = short_id (u_bot d)"
    and saved: "save (st\<lparr>sessions :=
        add_message (add_message (add_message ss' sid0 ?u) sid0 ?b) sid0 ?c\<rparr>) w = (None, st')"
    by simp_all
  from save_returned [OF saved]
  have st': "sessions st' = add_message (add_message (add_message ss' sid0 ?u) sid0 ?b) sid0 ?c"
    by simp
  from sl obtain s where s: "get ss' sid0 = Some s"
    using session_logic_present by blast
  have new: "get (sessions st') sid = Some (s\<lparr>messages := messages s @ [?u, ?b, ?c]\<rparr>)"
    using s by (simp add: st' resp get_add_three)
  have other: "get (sessions st') k = get ss' k" if "k \<noteq> sid" for k
    using that by (simp add: st' resp get_add_message)
  have shape: "s\<lparr>messages := messages s @ [?u, ?b, ?c]\<rparr> =
      \<lparr>title = title s, messages = messages s @
             [\<lparr>m_id = Some (Some (short_id (u_user d))), m_sender = Some (Some (py ''user'')),
               m_text = Some (Some (strip raw)), m_image_url = None, m_status = None\<rparr>,
              \<lparr>m_id = Some (Some (short_id (u_bot d))), m_sender = Some (Some (py ''bot'')),
               m_text = Some (Some (py ''Image is generated from prompt:'' @ [10] @ p)),
               m_image_url = Some (Some image_url), m_status = Some None\<rparr>,
              \<lparr>m_id = Some (Some (short_id (u_boom d))), m_sender = Some (Some (py ''bot'')),
               m_text = Some (Some boom_text), m_image_url = None, m_status = None\<rparr>]\<rparr>"
    by (simp add: user_message_def bot_message_def boom_message_def resp)
  let ?named = "\<exists>k. req_session_id req = Some k \<and> k \<noteq> [] \<and> get (sessions st) k \<noteq> None"
  have named: "req_session_id req = Some sid
               \<and> get (sessions st) sid = Some \<lparr>title = title s, messages = messages s\<rparr>
               \<and> p = (if get_all_prompts (sessions st) sid \<noteq> []
                            then get_all_prompts (sessions st) sid @ py ''. '' @ strip raw
                            else strip raw)
               \<and> ss' = sessions st" if ?named
  proof -
    from that obtain k s0 where k: "req_session_id req = Some k" "k \<noteq> []"
      "get (sessions st) k = Some s0" by auto
    with sl have "sid0 = k" "ss' = sessions st"
      "p = (if get_all_prompts (sessions st) k \<noteq> []
            then get_all_prompts (sessions st) k @ py ''. '' @ strip raw else strip raw)"
      by (auto simp: session_logic_existing simp del: session_logic.simps)
    with k s resp show ?thesis by simp
  qed
  have unnamed: "sid = short_id (u_session d) \<and> messages s = [] \<and> p = strip raw
      \<and> (\<forall>k. k \<noteq> sid \<longrightarrow> get ss' k = get (sessions st) k)" if "\<not> ?named"
  proof -
    from that have "req_session_id req = None \<or> req_session_id req = Some []
        \<or> (\<exists>k. req_session_id req = Some k \<and> get (sessions st) k = None)"
      by (cases "req_session_id req") auto
    from session_logic_new [OF this, of "u_session d" "strip raw"] sl
    have "sid0 = short_id (u_session d)" "p = strip raw"
      "ss' = AList.update (short_id (u_session d))
        \<lparr>title = take 30 (strip raw) @ (if length (strip raw) > 30 then py ''...'' else []),
         messages = []\<rparr> (sessions st)"
      by auto
    with s resp show ?thesis by (auto simp: get_def AList.update_conv')
  qed
  have frame: "\<forall>k. k \<noteq> sid \<longrightarrow> get (sessions st') k = get (sessions st) k"
    using named unnamed other by (cases ?named) auto
  show "\<exists>image_path prompt prior t.
        strip raw \<noteq> [] \<and> generate prompt = Inr image_path
        \<and> image_url = py ''/static/'' @ image_path \<and> anchor = short_id (u_bot d)
        \<and> get (sessions st') sid = Some \<lparr>title = t, messages = prior @
             [\<lparr>m_id = Some (Some (short_id (u_user d))), m_sender = Some (Some (py ''user'')),
               m_text = Some (Some (strip raw)), m_image_url = None, m_status = None\<rparr>,
              \<lparr>m_id = Some (Some (short_id (u_bot d))), m_sender = Some (Some (py ''bot'')),
               m_text = Some (Some (py ''Image is generated from prompt:'' @ [10] @ prompt)),
               m_image_url = Some (Some image_url), m_status = Some None\<rparr>,
              \<lparr>m_id = Some (Some (short_id (u_boom d))), m_sender = Some (Some (py ''bot'')),
               m_text = Some (Some boom_text), m_image_url = None, m_status = None\<rparr>]\<rparr>
        \<and> (?named \<longrightarrow>
               req_session_id req = Some sid
               \<and> get (sessions st) sid = Some \<lparr>title = t, messages = prior\<rparr>
               \<and> prompt = (if get_all_prompts (sessions st) sid \<noteq> []
                            then get_all_prompts (sessions st) sid @ py ''. '' @ strip raw
                            else strip raw))
        \<and> (\<not> ?named \<longrightarrow>
               sid = short_id (u_session d) \<and> prior = [] \<and> prompt = strip raw)
        \<and> (\<forall>k. k \<noteq> sid \<longrightarrow> get (sessions st') k = get (sessions st) k)"
    apply (rule exI [of _ image_path])
    apply (rule exI [of _ p])
    apply (rule exI [of _ "messages s"])
    apply (rule exI [of _ "title s"])
    using nonempty ok resp new shape named unnamed frame
    apply (intro conjI impI)
    apply simp_all
    done
qed

lemma example_ids:
  "short_id 0x0123456789abcdef0123456789abcdef = py ''01234567''"
  "short_id 0x1123456789abcdef0123456789abcdef = py ''11234567''"
  "short_id 0x2123456789abcdef0123456789abcdef = py ''21234567''"
  "short_id 0x3123456789abcdef0123456789abcdef = py ''31234567''"
  by (simp_all add: short_id_digits hexdigit_def py_def)

lemmas example_defs =
  generate_image_def finish_generation_def except_clause_def save_def regenerate_def
  update_status_def py_print_def can_print_def response_line_def repr_str_def repr_char_def
  utf8_deployment_def utf8_encodes_def encodable_store_def encodable_message_def
  encodable_value_def returns_path_def raises_def generation_failed_def str_of_pyval_def
  dict_get_def dict_index_def truthy_def strip_def isspace_def get_def get_all_prompts_def
  create_def add_message_def user_message_def bot_message_def boom_message_def boom_text_def
  Let_def py_def

theorem new_generation_messages_witness:
  "generate_image (returns_path (py ''generated/0a1b2c3d.png''))
       \<lparr>u_session = 0x0123456789abcdef0123456789abcdef,
        u_user = 0x1123456789abcdef0123456789abcdef,
        u_bot = 0x2123456789abcdef0123456789abcdef,
        u_boom = 0x3123456789abcdef0123456789abcdef\<rparr>
       utf8_deployment \<lparr>req_prompt = Some (Some (py ''  hat '')), req_session_id = Some (py ''s1'')\<rparr>
       \<lparr>sessions = [(py ''s1'', \<lparr>title = py ''cat'', messages =
           [user_message (py ''u1'') (py ''cat''), boom_message (py ''c1'')]\<rparr>)],
        persisted = NoFile\<rparr>
   = ((GenerateOk (py ''s1'') (py ''/static/generated/0a1b2c3d.png'') (py ''21234567''), 200),
      snd (generate_image (returns_path (py ''generated/0a1b2c3d.png''))
       \<lparr>u_session = 0x0123456789abcdef0123456789abcdef,
        u_user = 0x1123456789abcdef0123456789abcdef,
        u_bot = 0x2123456789abcdef0123456789abcdef,
        u_boom = 0x3123456789abcdef0123456789abcdef\<rparr>
       utf8_deployment \<lparr>req_prompt = Some (Some (py ''  hat '')), req_session_id = Some (py ''s1'')\<rparr>
       \<lparr>sessions = [(py ''s1'', \<lparr>title = py ''cat'', messages =
           [user_message (py ''u1'') (py ''cat''), boom_message (py ''c1'')]\<rparr>)],
        persisted = NoFile\<rparr>))
   \<and> get (sessions (snd (generate_image (returns_path (py ''generated/0a1b2c3d.png''))
       \<lparr>u_session = 0x0123456789abcdef0123456789abcdef,
        u_user = 0x1123456789abcdef0123456789abcdef,
        u_bot = 0x2123456789abcdef0123456789abcdef,
        u_boom = 0x3123456789abcdef0123456789abcdef\<rparr>
       utf8_deployment \<lparr>req_prompt = Some (Some (py ''  hat '')), req_session_id = Some (py ''s1'')\<rparr>
       \<lparr>sessions = [(py ''s1'', \<lparr>title = py ''cat'', messages =
           [user_message (py ''u1'') (py ''cat''), boom_message (py ''c1'')]\<rparr>)],
        persisted = NoFile\<rparr>))) (py ''s1'')
     = Some \<lparr>title = py ''cat'', messages =
         [user_message (py ''u1'') (py ''cat''), boom_message (py ''c1''),
          \<lparr>m_id = Some (Some (py ''11234567'')), m_sender = Some (Some (py ''user'')),
           m_text = Some (Some (py ''hat'')), m_image_url = None, m_status = None\<rparr>,
          \<lparr>m_id = Some (Some (py ''21234567'')), m_sender = Some (Some (py ''bot'')),
           m_text = Some (Some (py ''Image is generated from prompt:'' @ [10] @ py ''cat. hat'')),
           m_image_url = Some (Some (py ''/static/generated/0a1b2c3d.png'')),
           m_status = Some None\<rparr>,
          \<lparr>m_id = Some (Some (py ''31234567'')), m_sender = Some (Some (py ''bot'')),
           m_text = Some (Some boom_text), m_image_url = None, m_status = None\<rparr>]\<rparr>"
    (is "generate_image ?g ?d ?w ?r ?st = ?resp \<and> get (sessions ?st') (py ''s1'') = ?after")
proof -
  have s: "strip (py ''  hat '') = py ''hat''"
    by (simp add: strip_def isspace_def py_def)
  have n: "py ''hat'' \<noteq> []" "py ''s1'' \<noteq> []" "py ''cat'' \<noteq> []"
    by (simp_all add: py_def)
  have h: "get_all_prompts (sessions ?st) (py ''s1'') = py ''cat''"
    by (simp add: get_all_prompts_def user_message_def boom_message_def dict_get_def truthy_def
        py_def)
  have c: "py ''cat'' @ py ''. '' @ py ''hat'' = py ''cat. hat''"
    "py ''/static/'' @ py ''generated/0a1b2c3d.png'' = py ''/static/generated/0a1b2c3d.png''"
    by (simp_all add: py_def)
  have i: "short_id (u_user ?d) = py ''11234567''" "short_id (u_bot ?d) = py ''21234567''"
    "short_id (u_boom ?d) = py ''31234567''"
    by (simp_all add: example_ids)
  have g: "get (sessions ?st) (py ''s1'') = Some \<lparr>title = py ''cat'', messages =
           [user_message (py ''u1'') (py ''cat''), boom_message (py ''c1'')]\<rparr>"
    by (simp add: get_def)
  have "fst (generate_image ?g ?d ?w ?r ?st)
      = (GenerateOk (py ''s1'') (py ''/static/generated/0a1b2c3d.png'') (py ''21234567''), 200)"
    by (simp add: example_defs example_ids)
  then have run: "generate_image ?g ?d ?w ?r ?st = ?resp"
    by (simp add: prod_eq_iff)
  have pre: "req_prompt ?r = Some (Some (py ''  hat ''))
      \<and> generate_image ?g ?d ?w ?r ?st = ?resp"
    using run by simp
  from new_generation_messages [where generate = ?g and d = ?d and w = ?w and req = ?r
      and st = ?st, THEN mp, OF pre]
  obtain image_path prompt prior t where
    new: "get (sessions ?st') (py ''s1'') = Some \<lparr>title = t, messages = prior @
             [\<lparr>m_id = Some (Some (short_id (u_user ?d))), m_sender = Some (Some (py ''user'')),
               m_text = Some (Some (strip (py ''  hat ''))), m_image_url = None, m_status = None\<rparr>,
              \<lparr>m_id = Some (Some (short_id (u_bot ?d))), m_sender = Some (Some (py ''bot'')),
               m_text = Some (Some (py ''Image is generated from prompt:'' @ [10] @ prompt)),
               m_image_url = Some (Some (py ''/static/generated/0a1b2c3d.png'')),
               m_status = Some None\<rparr>,
              \<lparr>m_id = Some (Some (short_id (u_boom ?d))), m_sender = Some (Some (py ''bot'')),
               m_text = Some (Some boom_text), m_image_url = None, m_status = None\<rparr>]\<rparr>"
    and named: "(\<exists>k. req_session_id ?r = Some k \<and> k \<noteq> [] \<and> get (sessions ?st) k \<noteq> None) \<longrightarrow>
               req_session_id ?r = Some (py ''s1'')
               \<and> get (sessions ?st) (py ''s1'') = Some \<lparr>title = t, messages = prior\<rparr>
               \<and> prompt = (if get_all_prompts (sessions ?st) (py ''s1'') \<noteq> []
                            then get_all_prompts (sessions ?st) (py ''s1'') @ py ''. ''
                              @ strip (py ''  hat '')
                            else strip (py ''  hat ''))"
    by (elim exE conjE) (rule that)
  have "\<exists>k. req_session_id ?r = Some k \<and> k \<noteq> [] \<and> get (sessions ?st) k \<noteq> None"
    using n g by simp
  with named have eq: "get (sessions ?st) (py ''s1'') = Some \<lparr>title = t, messages = prior\<rparr>"
    and p: "prompt = py ''cat. hat''"
    using h n c s by simp_all
  from eq g have t: "t = py ''cat''"
    and prior: "prior = [user_message (py ''u1'') (py ''cat''), boom_message (py ''c1'')]"
    by auto
  from new have "get (sessions ?st') (py ''s1'') = ?after"
    unfolding t prior p s i by simp
  with run show ?thesis by simp
qed

lemma save_sessions: "save st w = (r, st') \<Longrightarrow> sessions st' = sessions st"
  using sessions_save [of st w] by simp

lemma finish_generation_sessions:
  "sessions (snd (finish_generation w d st sid prompt_new p image_path)) = sessions st
   \<or> sessions (snd (finish_generation w d st sid prompt_new p image_path)) =
       add_message
         (add_message
            (add_message (sessions st) sid (user_message (short_id (u_user d)) prompt_new))
            sid
            (bot_message (short_id (u_bot d)) image_path
               (py ''Image is generated from prompt:'' @ [10] @ p)))
         sid (boom_message (short_id (u_boom d)))"
proof -
  let ?ss = "add_message
         (add_message
            (add_message (sessions st) sid (user_message (short_id (u_user d)) prompt_new))
            sid
            (bot_message (short_id (u_bot d)) image_path
               (py ''Image is generated from prompt:'' @ [10] @ p)))
         sid (boom_message (short_id (u_boom d)))"
  show ?thesis
    by (auto simp: finish_generation_def Let_def dest: save_sessions
        split: option.splits prod.splits)
qed

lemma generate_image_at_prompt:
  assumes raw: "req_prompt req = Some (Some raw)" "strip raw \<noteq> []" "can_print w (strip raw)"
    and sid: "can_print w (str_of_pyval (req_session_id req))"
    and sl: "session_logic (sessions st) (u_session d) (req_session_id req) (strip raw)
      = (sid, p, line, ss')"
    and line: "can_print w line"
  shows "generate p = Inl e \<Longrightarrow> can_print w (str_of_error e) \<Longrightarrow>
         generate_image generate d w req st =
           ((ErrorBody (py ''Image generation failed: '' @ str_of_error e), 500),
            st\<lparr>sessions := ss'\<rparr>)"
    and "generate_image generate d w req st = ((GenerateOk a b c, n), st') \<Longrightarrow>
         \<exists>image_path. generate p = Inr image_path \<and> a = sid \<and> b = py ''/static/'' @ image_path
           \<and> c = short_id (u_bot d)"
    and "generate' p = generate p \<Longrightarrow>
         generate_image generate' d w req st = generate_image generate d w req st"
    and "k \<noteq> sid \<Longrightarrow> get (sessions (snd (generate_image generate d w req st))) k = get ss' k"
    and "map_option title (get (sessions (snd (generate_image generate d w req st))) sid)
           = map_option title (get ss' sid)"
proof -
  note run = generate_image_run [OF raw sid sl line]
  show "generate_image generate d w req st =
           ((ErrorBody (py ''Image generation failed: '' @ str_of_error e), 500),
            st\<lparr>sessions := ss'\<rparr>)"
    if "generate p = Inl e" "can_print w (str_of_error e)"
    using that by (simp add: run except_clause_cases generation_failed_def)
  show "\<exists>image_path. generate p = Inr image_path \<and> a = sid \<and> b = py ''/static/'' @ image_path
           \<and> c = short_id (u_bot d)"
    if ok: "generate_image generate d w req st = ((GenerateOk a b c, n), st')"
  proof (cases "generate p")
    case (Inl e)
    with ok show ?thesis by (simp add: run except_clause_not_ok)
  next
    case (Inr image_path)
    with ok have "finish_generation w d (st\<lparr>sessions := ss'\<rparr>) sid (strip raw) p image_path
        = ((GenerateOk a b c, n), st')"
      by (simp add: run)
    from finish_generation_ok [OF this] Inr show ?thesis by simp
  qed
  show "generate_image generate' d w req st = generate_image generate d w req st"
    if "generate' p = generate p"
    using that by (simp add: run generate_image_run [OF raw sid sl line, of generate'])
  have cases: "sessions (snd (generate_image generate d w req st)) = ss'
      \<or> (\<exists>x y z. sessions (snd (generate_image generate d w req st))
            = add_message (add_message (add_message ss' sid x) sid y) sid z)"
  proof (cases "generate p")
    case (Inl e)
    then show ?thesis by (simp add: run)
  next
    case (Inr image_path)
    with finish_generation_sessions [of w d "st\<lparr>sessions := ss'\<rparr>" sid "strip raw" p image_path]
    show ?thesis by (auto simp: run)
  qed
  show "get (sessions (snd (generate_image generate d w req st))) k = get ss' k" if "k \<noteq> sid"
    using cases that by (auto simp: get_add_message)
  show "map_option title (get (sessions (snd (generate_image generate d w req st))) sid)
           = map_option title (get ss' sid)"
    using cases by (auto simp: get_add_message option.map_comp comp_def)
qed

text \<open>
  C2, as the specification states it, fails: the run prints the prompt before it
  creates the session and calls the capability, and \<open>print\<close> raises on a prompt that
  the standard output cannot encode. For a prompt that ends in a lone surrogate, on a
  UTF-8 standard output, the run answers with the text of the codec error: no session is
  created, and the capability, which would have returned a path, is not called.
\<close>

theorem effective_prompt_counterexample:
  "strip (py ''cat'' @ [55296]) = py ''cat'' @ [55296]
   \<and> generate_image (returns_path (py ''generated/0a1b2c3d.png''))
     \<lparr>u_session = 0x0123456789abcdef0123456789abcdef,
      u_user = 0x1123456789abcdef0123456789abcdef,
      u_bot = 0x2123456789abcdef0123456789abcdef,
      u_boom = 0x3123456789abcdef0123456789abcdef\<rparr>
     utf8_deployment
     \<lparr>req_prompt = Some (Some (py ''cat'' @ [55296])), req_session_id = None\<rparr>
     \<lparr>sessions = [], persisted = NoFile\<rparr>
   = ((ErrorBody (py ''Image generation failed: '' @ [39] @ py ''utf-8'' @ [39] @ py '' codec can''
         @ [39] @ py ''t encode character '' @ [39, 92] @ py ''ud800'' @ [39]
         @ py '' in position 11: surrogates not allowed''), 500),
      \<lparr>sessions = [], persisted = NoFile\<rparr>)"
  by (simp add: generate_image_def except_clause_def py_print_def can_print_def
      utf8_deployment_def utf8_encodes_def utf8_error_text_def dict_get_def strip_def
      isspace_def generation_failed_def hex_width_4 hexdigit_def Let_def py_def
      dec.simps [of 11] dec.simps [of 1])

text \<open>
  C2, amended. Let the request carry a prompt whose stripped form \<open>prompt_new\<close> is not
  empty, and let the standard output encode the lines the run prints before the
  capability: the prompt, the session id and, for a session of the store, the first
  100 characters of the effective prompt. When the request names a session of the store
  (a non-empty id), the capability is called on the history of that session followed by
  \<open>". "\<close> and \<open>prompt_new\<close>, or on \<open>prompt_new\<close> alone when the history is empty.
  Otherwise a session titled from \<open>prompt_new\<close> is stored under the id drawn, the other
  sessions stay as they are, and the capability is called on \<open>prompt_new\<close> alone. That
  the capability is called on that prompt shows in three ways: its failure there is the
  answer of the run (when the text of the exception can be printed), a run that answers
  with success has got its path from there, and a capability with the same outcome on
  that prompt gives the same run.
\<close>

theorem effective_prompt:
  "req_prompt req = Some (Some raw) \<and> strip raw = prompt_new \<and> prompt_new \<noteq> []
     \<and> can_print w prompt_new \<and> can_print w (str_of_pyval (req_session_id req)) \<longrightarrow>
     (\<forall>sid s. req_session_id req = Some sid \<and> sid \<noteq> [] \<and> get (sessions st) sid = Some s
          \<and> can_print w (take 100 (if get_all_prompts (sessions st) sid \<noteq> []
                     then get_all_prompts (sessions st) sid @ py ''. '' @ prompt_new
                     else prompt_new)) \<longrightarrow>
        (\<exists>prompt.
           prompt = (if get_all_prompts (sessions st) sid \<noteq> []
                     then get_all_prompts (sessions st) sid @ py ''. '' @ prompt_new
                     else prompt_new)
           \<and> (\<forall>e. generate prompt = Inl e \<and> can_print w (str_of_error e) \<longrightarrow>
               fst (generate_image generate d w req st) =
                 (ErrorBody (py ''Image generation failed: '' @ str_of_error e), 500))
           \<and> (\<forall>a b c st'.
                 generate_image generate d w req st = ((GenerateOk a b c, 200), st') \<longrightarrow>
                 a = sid
                 \<and> (\<exists>image_path. generate prompt = Inr image_path
                        \<and> b = py ''/static/'' @ image_path))
           \<and> (\<forall>generate'. generate' prompt = generate prompt \<longrightarrow>
                 generate_image generate' d w req st = generate_image generate d w req st)))
     \<and> (req_session_id req = None \<or> req_session_id req = Some []
          \<or> (\<exists>k. req_session_id req = Some k \<and> get (sessions st) k = None) \<longrightarrow>
        (\<forall>e. generate prompt_new = Inl e \<and> can_print w (str_of_error e) \<longrightarrow>
               fst (generate_image generate d w req st) =
                 (ErrorBody (py ''Image generation failed: '' @ str_of_error e), 500))
           \<and> (\<forall>a b c st'.
                 generate_image generate d w req st = ((GenerateOk a b c, 200), st') \<longrightarrow>
                 a = short_id (u_session d)
                 \<and> (\<exists>image_path. generate prompt_new = Inr image_path
                        \<and> b = py ''/static/'' @ image_path))
           \<and> (\<forall>generate'. generate' prompt_new = generate prompt_new \<longrightarrow>
                 generate_image generate' d w req st = generate_image generate d w req st)
        \<and> (\<exists>s'. get (sessions (snd (generate_image generate d w req st))) (short_id (u_session d))
                   = Some s'
               \<and> title s' = take 30 prompt_new @ (if length prompt_new > 30 then py ''...'' else []))
        \<and> (\<forall>k. k \<noteq> short_id (u_session d) \<longrightarrow>
              get (sessions (snd (generate_image generate d w req st))) k = get (sessions st) k))"
proof (intro impI conjI allI)
  fix sid s
  assume a: "req_prompt req = Some (Some raw) \<and> strip raw = prompt_new \<and> prompt_new \<noteq> []
     \<and> can_print w prompt_new \<and> can_print w (str_of_pyval (req_session_id req))"
    and b: "req_session_id req = Some sid \<and> sid \<noteq> [] \<and> get (sessions st) sid = Some s
          \<and> can_print w (take 100 (if get_all_prompts (sessions st) sid \<noteq> []
                     then get_all_prompts (sessions st) sid @ py ''. '' @ prompt_new
                     else prompt_new))"
  define prompt where "prompt = (if get_all_prompts (sessions st) sid \<noteq> []
                     then get_all_prompts (sessions st) sid @ py ''. '' @ prompt_new
                     else prompt_new)"
  from a b have sl: "session_logic (sessions st) (u_session d) (req_session_id req) (strip raw)
      = (sid, prompt, py ''Using existing session. Full prompt: '' @ take 100 prompt @ py ''...'',
         sessions st)"
    by (simp add: session_logic_existing prompt_def del: session_logic.simps)
  from b have line: "can_print w
      (py ''Using existing session. Full prompt: '' @ take 100 prompt @ py ''...'')"
    by (simp add: prompt_def)
  from a have raw: "req_prompt req = Some (Some raw)" "strip raw \<noteq> []"
    "can_print w (strip raw)" and printed: "can_print w (str_of_pyval (req_session_id req))"
    by simp_all
  note at = generate_image_at_prompt [OF raw printed sl line]
  have e: "fst (generate_image generate d w req st) =
                 (ErrorBody (py ''Image generation failed: '' @ str_of_error e), 500)"
    if "generate prompt = Inl e \<and> can_print w (str_of_error e)" for e
    using at(1) [of generate e] that by simp
  have o: "a = sid \<and> (\<exists>image_path. generate prompt = Inr image_path
                        \<and> b = py ''/static/'' @ image_path)"
    if "generate_image generate d w req st = ((GenerateOk a b c, 200), st')" for a b c st'
    using at(2) [OF that] by blast
  have i: "generate_image generate' d w req st = generate_image generate d w req st"
    if "generate' prompt = generate prompt" for generate'
    using that by (rule at(3) [of generate' generate])
  show "\<exists>prompt.
           prompt = (if get_all_prompts (sessions st) sid \<noteq> []
                     then get_all_prompts (sessions st) sid @ py ''. '' @ prompt_new
                     else prompt_new)
           \<and> (\<forall>e. generate prompt = Inl e \<and> can_print w (str_of_error e) \<longrightarrow>
               fst (generate_image generate d w req st) =
                 (ErrorBody (py ''Image generation failed: '' @ str_of_error e), 500))
           \<and> (\<forall>a b c st'.
                 generate_image generate d w req st = ((GenerateOk a b c, 200), st') \<longrightarrow>
                 a = sid
                 \<and> (\<exists>image_path. generate prompt = Inr image_path
                        \<and> b = py ''/static/'' @ image_path))
           \<and> (\<forall>generate'. generate' prompt = generate prompt \<longrightarrow>
                 generate_image generate' d w req st = generate_image generate d w req st)"
    apply (rule exI [of _ prompt])
    apply (intro conjI allI impI)
    subgoal by (simp add: prompt_def)
    subgoal for e by (rule e)
    subgoal for a b c st' using o [of a b c st'] by blast
    subgoal for a b c st' using o [of a b c st'] by blast
    subgoal for generate' by (rule i)
    done
next
  assume a: "req_prompt req = Some (Some raw) \<and> strip raw = prompt_new \<and> prompt_new \<noteq> []
     \<and> can_print w prompt_new \<and> can_print w (str_of_pyval (req_session_id req))"
    and b: "req_session_id req = None \<or> req_session_id req = Some []
          \<or> (\<exists>k. req_session_id req = Some k \<and> get (sessions st) k = None)"
  define ss' where "ss' = AList.update (short_id (u_session d))
        \<lparr>title = take 30 prompt_new @ (if length prompt_new > 30 then py ''...'' else []),
         messages = []\<rparr> (sessions st)"
  from b have sl: "session_logic (sessions st) (u_session d) (req_session_id req) (strip raw)
      = (short_id (u_session d), prompt_new,
         py ''Created new session: '' @ short_id (u_session d), ss')"
    using a session_logic_new [of "req_session_id req" "sessions st" "u_session d" prompt_new]
    by (simp add: ss'_def)
  have line: "can_print w (py ''Created new session: '' @ short_id (u_session d))"
    by simp
  from a have raw: "req_prompt req = Some (Some raw)" "strip raw \<noteq> []"
    "can_print w (strip raw)" and printed: "can_print w (str_of_pyval (req_session_id req))"
    by simp_all
  note at = generate_image_at_prompt [OF raw printed sl line]
  show "fst (generate_image generate d w req st) =
                 (ErrorBody (py ''Image generation failed: '' @ str_of_error e), 500)"
    if "generate prompt_new = Inl e \<and> can_print w (str_of_error e)" for e
    using at(1) [of generate e] that by simp
  show "a = short_id (u_session d)"
    if "generate_image generate d w req st = ((GenerateOk a b c, 200), st')" for a b c st'
    using at(2) [OF that] by blast
  show "\<exists>image_path. generate prompt_new = Inr image_path \<and> b = py ''/static/'' @ image_path"
    if "generate_image generate d w req st = ((GenerateOk a b c, 200), st')" for a b c st'
    using at(2) [OF that] by blast
  show "generate_image generate' d w req st = generate_image generate d w req st"
    if "generate' prompt_new = generate prompt_new" for generate'
    using that by (rule at(3) [of generate' generate])
  have g: "get ss' (short_id (u_session d)) =
      Some \<lparr>title = take 30 prompt_new @ (if length prompt_new > 30 then py ''...'' else []),
            messages = []\<rparr>"
    by (simp add: ss'_def get_def AList.update_conv')
  from at(5) [of generate] g
  show "\<exists>s'. get (sessions (snd (generate_image generate d w req st))) (short_id (u_session d))
                   = Some s'
               \<and> title s' = take 30 prompt_new @ (if length prompt_new > 30 then py ''...'' else [])"
    by auto
  show "get (sessions (snd (generate_image generate d w req st))) k = get (sessions st) k"
    if "k \<noteq> short_id (u_session d)" for k
    using at(4) [OF that, of generate] that by (simp add: ss'_def get_def AList.update_conv')
qed

theorem effective_prompt_witness:
  "fst (generate_image (Inl \<circ> Exception)
          \<lparr>u_session = 0x0123456789abcdef0123456789abcdef,
           u_user = 0x1123456789abcdef0123456789abcdef,
           u_bot = 0x2123456789abcdef0123456789abcdef,
           u_boom = 0x3123456789abcdef0123456789abcdef\<rparr>
          utf8_deployment
          \<lparr>req_prompt = Some (Some (py ''  hat '')), req_session_id = Some (py ''s1'')\<rparr>
          \<lparr>sessions = [(py ''s1'', \<lparr>title = py ''cat'', messages =
              [user_message (py ''u1'') (py ''cat''), boom_message (py ''c1'')]\<rparr>)],
           persisted = NoFile\<rparr>)
     = (ErrorBody (py ''Image generation failed: cat. hat''), 500)
   \<and> fst (generate_image (Inl \<circ> Exception)
          \<lparr>u_session = 0x0123456789abcdef0123456789abcdef,
           u_user = 0x1123456789abcdef0123456789abcdef,
           u_bot = 0x2123456789abcdef0123456789abcdef,
           u_boom = 0x3123456789abcdef0123456789abcdef\<rparr>
          utf8_deployment
          \<lparr>req_prompt = Some (Some (py ''  hat '')), req_session_id = None\<rparr>
          \<lparr>sessions = [(py ''s1'', \<lparr>title = py ''cat'', messages =
              [user_message (py ''u1'') (py ''cat''), boom_message (py ''c1'')]\<rparr>)],
           persisted = NoFile\<rparr>)
     = (ErrorBody (py ''Image generation failed: hat''), 500)"
    (is "fst (generate_image ?g ?d ?w ?r1 ?st) = ?e1 \<and> fst (generate_image ?g ?d ?w ?r2 ?st) = ?e2")
proof
  have s: "strip (py ''  hat '') = py ''hat''"
    by (simp add: strip_def isspace_def py_def)
  have n: "py ''hat'' \<noteq> []" "py ''s1'' \<noteq> []" "py ''cat'' \<noteq> []"
    by (simp_all add: py_def)
  have h: "get_all_prompts (sessions ?st) (py ''s1'') = py ''cat''"
    by (simp add: get_all_prompts_def user_message_def boom_message_def dict_get_def truthy_def
        py_def)
  have c: "py ''Image generation failed: '' @ py ''cat'' @ py ''. '' @ py ''hat''
      = py ''Image generation failed: cat. hat''"
    "py ''Image generation failed: '' @ py ''hat'' = py ''Image generation failed: hat''"
    by (simp_all add: py_def)
  have p: "can_print ?w (py ''hat'')" "can_print ?w (py ''s1'')" "can_print ?w (py ''cat'')"
    "can_print ?w (py ''. '')" "can_print ?w (py ''None'')"
    "can_print ?w (take 100 (py ''cat'' @ py ''. '' @ py ''hat''))"
    by (simp_all add: can_print_def py_def)
  have pre1: "req_prompt ?r1 = Some (Some (py ''  hat '')) \<and> strip (py ''  hat '') = py ''hat''
      \<and> py ''hat'' \<noteq> [] \<and> can_print ?w (py ''hat'')
      \<and> can_print ?w (str_of_pyval (req_session_id ?r1))"
    using s n p by (simp add: str_of_pyval_def)
  have named: "req_session_id ?r1 = Some (py ''s1'') \<and> py ''s1'' \<noteq> []
      \<and> get (sessions ?st) (py ''s1'') = Some \<lparr>title = py ''cat'', messages =
              [user_message (py ''u1'') (py ''cat''), boom_message (py ''c1'')]\<rparr>
      \<and> can_print ?w (take 100 (if get_all_prompts (sessions ?st) (py ''s1'') \<noteq> []
            then get_all_prompts (sessions ?st) (py ''s1'') @ py ''. '' @ py ''hat''
            else py ''hat''))"
    unfolding h using n p by (simp add: get_def)
  from effective_prompt [where generate = ?g and d = ?d and w = ?w and req = ?r1
      and st = ?st, THEN mp, OF pre1, THEN conjunct1, THEN spec, THEN spec, THEN mp, OF named]
  obtain prompt where "prompt = (if get_all_prompts (sessions ?st) (py ''s1'') \<noteq> []
        then get_all_prompts (sessions ?st) (py ''s1'') @ py ''. '' @ py ''hat'' else py ''hat'')"
    and "\<forall>e. ?g prompt = Inl e \<and> can_print ?w (str_of_error e) \<longrightarrow>
        fst (generate_image ?g ?d ?w ?r1 ?st) =
          (ErrorBody (py ''Image generation failed: '' @ str_of_error e), 500)"
    by (elim exE conjE) (rule that)
  then have "?g (py ''cat'' @ py ''. '' @ py ''hat'') = Inl (Exception (py ''cat'' @ py ''. '' @ py ''hat''))
      \<and> can_print ?w (str_of_error (Exception (py ''cat'' @ py ''. '' @ py ''hat''))) \<longrightarrow>
        fst (generate_image ?g ?d ?w ?r1 ?st) =
          (ErrorBody (py ''Image generation failed: ''
             @ str_of_error (Exception (py ''cat'' @ py ''. '' @ py ''hat''))), 500)"
    unfolding h using n by simp
  then show "fst (generate_image ?g ?d ?w ?r1 ?st) = ?e1"
    using p c by simp
  have pre2: "req_prompt ?r2 = Some (Some (py ''  hat '')) \<and> strip (py ''  hat '') = py ''hat''
      \<and> py ''hat'' \<noteq> [] \<and> can_print ?w (py ''hat'')
      \<and> can_print ?w (str_of_pyval (req_session_id ?r2))"
    using s n p by (simp add: str_of_pyval_def)
  have unnamed: "req_session_id ?r2 = None \<or> req_session_id ?r2 = Some []
      \<or> (\<exists>k. req_session_id ?r2 = Some k \<and> get (sessions ?st) k = None)"
    by simp
  from effective_prompt [where generate = ?g and d = ?d and w = ?w and req = ?r2
      and st = ?st, THEN mp, OF pre2, THEN conjunct2, THEN mp, OF unnamed, THEN conjunct1,
      THEN spec, of "Exception (py ''hat'')"]
  show "fst (generate_image ?g ?d ?w ?r2 ?st) = ?e2"
    using p c by simp
qed

text \<open>
  C1, as the specification states it, fails: a request that names no session creates
  its session before the capability is called, and the session stays in the store when
  the capability fails.
\<close>

theorem new_generation_failure_counterexample:
  "generate_image (Inl \<circ> Exception)
     \<lparr>u_session = 0x0123456789abcdef0123456789abcdef,
      u_user = 0x1123456789abcdef0123456789abcdef,
      u_bot = 0x2123456789abcdef0123456789abcdef,
      u_boom = 0x3123456789abcdef0123456789abcdef\<rparr>
     utf8_deployment
     \<lparr>req_prompt = Some (Some (py ''cat'')), req_session_id = None\<rparr>
     \<lparr>sessions = [], persisted = Document []\<rparr>
   = ((ErrorBody (py ''Image generation failed: cat''), 500),
      \<lparr>sessions = [(py ''01234567'', \<lparr>title = py ''cat'', messages = []\<rparr>)],
       persisted = Document []\<rparr>)
   \<and> \<lparr>sessions = [(py ''01234567'', \<lparr>title = py ''cat'', messages = []\<rparr>)],
       persisted = Document []\<rparr>
     \<noteq> \<lparr>sessions = [], persisted = Document []\<rparr>"
  by (simp add: example_defs example_ids)

text \<open>
  C1, amended. Let the stripped prompt of the request be non-empty, let the standard
  output encode the lines the run prints (the prompt, the session id, the first 100
  characters of the effective prompt of a session of the store, and the text of the
  exception), and let the capability fail on the effective prompt. The run then answers
  with the generation-failure error and the status 500, appends no message and does not
  write the sessions file. When the request names a session of the store, the state is
  unchanged. When it names none, the store differs from the one before only by the
  session that \<open>create\<close> stored under the id drawn, which has its title and no
  messages.
\<close>

theorem new_generation_failure:
  "req_prompt req = Some (Some raw) \<and> strip raw \<noteq> [] \<and> can_print w (strip raw)
     \<and> can_print w (str_of_pyval (req_session_id req)) \<longrightarrow>
     (\<forall>sid s e. req_session_id req = Some sid \<and> sid \<noteq> [] \<and> get (sessions st) sid = Some s
         \<and> can_print w (take 100 (if get_all_prompts (sessions st) sid \<noteq> []
                      then get_all_prompts (sessions st) sid @ py ''. '' @ strip raw
                      else strip raw))
         \<and> generate (if get_all_prompts (sessions st) sid \<noteq> []
                      then get_all_prompts (sessions st) sid @ py ''. '' @ strip raw
                      else strip raw) = Inl e
         \<and> can_print w (str_of_error e) \<longrightarrow>
        generate_image generate d w req st =
          ((ErrorBody (py ''Image generation failed: '' @ str_of_error e), 500), st))
     \<and> (\<forall>e. (req_session_id req = None \<or> req_session_id req = Some []
              \<or> (\<exists>k. req_session_id req = Some k \<and> get (sessions st) k = None))
         \<and> generate (strip raw) = Inl e \<and> can_print w (str_of_error e) \<longrightarrow>
        (\<exists>st'. generate_image generate d w req st =
            ((ErrorBody (py ''Image generation failed: '' @ str_of_error e), 500), st')
          \<and> persisted st' = persisted st
          \<and> get (sessions st') (short_id (u_session d)) =
               Some \<lparr>title = take 30 (strip raw) @ (if length (strip raw) > 30 then py ''...'' else []),
                     messages = []\<rparr>
          \<and> (\<forall>k. k \<noteq> short_id (u_session d) \<longrightarrow> get (sessions st') k = get (sessions st) k)))"
proof (intro impI conjI allI)
  fix sid s e
  assume a: "req_prompt req = Some (Some raw) \<and> strip raw \<noteq> [] \<and> can_print w (strip raw)
     \<and> can_print w (str_of_pyval (req_session_id req))"
    and b: "req_session_id req = Some sid \<and> sid \<noteq> [] \<and> get (sessions st) sid = Some s
         \<and> can_print w (take 100 (if get_all_prompts (sessions st) sid \<noteq> []
                      then get_all_prompts (sessions st) sid @ py ''. '' @ strip raw
                      else strip raw))
         \<and> generate (if get_all_prompts (sessions st) sid \<noteq> []
                      then get_all_prompts (sessions st) sid @ py ''. '' @ strip raw
                      else strip raw) = Inl e
         \<and> can_print w (str_of_error e)"
  define prompt where "prompt = (if get_all_prompts (sessions st) sid \<noteq> []
                      then get_all_prompts (sessions st) sid @ py ''. '' @ strip raw
                      else strip raw)"
  from b have sl: "session_logic (sessions st) (u_session d) (req_session_id req) (strip raw)
      = (sid, prompt, py ''Using existing session. Full prompt: '' @ take 100 prompt @ py ''...'',
         sessions st)"
    by (simp add: session_logic_existing prompt_def del: session_logic.simps)
  from b have line: "can_print w
      (py ''Using existing session. Full prompt: '' @ take 100 prompt @ py ''...'')"
    and fails: "generate prompt = Inl e" and etext: "can_print w (str_of_error e)"
    by (simp_all add: prompt_def)
  from a have raw: "req_prompt req = Some (Some raw)" "strip raw \<noteq> []"
    "can_print w (strip raw)" and printed: "can_print w (str_of_pyval (req_session_id req))"
    by simp_all
  from generate_image_at_prompt(1) [OF raw printed sl line, of generate e] fails etext
  show "generate_image generate d w req st =
          ((ErrorBody (py ''Image generation failed: '' @ str_of_error e), 500), st)"
    by simp
next
  fix e
  assume a: "req_prompt req = Some (Some raw) \<and> strip raw \<noteq> [] \<and> can_print w (strip raw)
     \<and> can_print w (str_of_pyval (req_session_id req))"
    and b: "(req_session_id req = None \<or> req_session_id req = Some []
              \<or> (\<exists>k. req_session_id req = Some k \<and> get (sessions st) k = None))
         \<and> generate (strip raw) = Inl e \<and> can_print w (str_of_error e)"
  define ss' where "ss' = AList.update (short_id (u_session d))
        \<lparr>title = take 30 (strip raw) @ (if length (strip raw) > 30 then py ''...'' else []),
         messages = []\<rparr> (sessions st)"
  from b have sl: "session_logic (sessions st) (u_session d) (req_session_id req) (strip raw)
      = (short_id (u_session d), strip raw,
         py ''Created new session: '' @ short_id (u_session d), ss')"
    using session_logic_new [of "req_session_id req" "sessions st" "u_session d" "strip raw"]
    by (simp add: ss'_def)
  have line: "can_print w (py ''Created new session: '' @ short_id (u_session d))"
    by simp
  from b have fails: "generate (strip raw) = Inl e" and etext: "can_print w (str_of_error e)"
    by simp_all
  from a have raw: "req_prompt req = Some (Some raw)" "strip raw \<noteq> []"
    "can_print w (strip raw)" and printed: "can_print w (str_of_pyval (req_session_id req))"
    by simp_all
  have run: "generate_image generate d w req st =
      ((ErrorBody (py ''Image generation failed: '' @ str_of_error e), 500),
       st\<lparr>sessions := ss'\<rparr>)"
    using generate_image_at_prompt(1) [OF raw printed sl line, of generate e] fails etext
    by simp
  show "\<exists>st'. generate_image generate d w req st =
            ((ErrorBody (py ''Image generation failed: '' @ str_of_error e), 500), st')
          \<and> persisted st' = persisted st
          \<and> get (sessions st') (short_id (u_session d)) =
               Some \<lparr>title = take 30 (strip raw) @ (if length (strip raw) > 30 then py ''...'' else []),
                     messages = []\<rparr>
          \<and> (\<forall>k. k \<noteq> short_id (u_session d) \<longrightarrow> get (sessions st') k = get (sessions st) k)"
    by (rule exI [of _ "st\<lparr>sessions := ss'\<rparr>"])
      (simp add: run ss'_def get_def AList.update_conv')
qed

theorem new_generation_failure_witness:
  "generate_image (Inl \<circ> Exception)
       \<lparr>u_session = 0x0123456789abcdef0123456789abcdef,
        u_user = 0x1123456789abcdef0123456789abcdef,
        u_bot = 0x2123456789abcdef0123456789abcdef,
        u_boom = 0x3123456789abcdef0123456789abcdef\<rparr>
       utf8_deployment \<lparr>req_prompt = Some (Some (py ''  hat '')), req_session_id = Some (py ''s1'')\<rparr>
       \<lparr>sessions = [(py ''s1'', \<lparr>title = py ''cat'', messages =
           [user_message (py ''u1'') (py ''cat''), boom_message (py ''c1'')]\<rparr>)],
        persisted = NoFile\<rparr>
   = ((ErrorBody (py ''Image generation failed: cat. hat''), 500),
       \<lparr>sessions = [(py ''s1'', \<lparr>title = py ''cat'', messages =
           [user_message (py ''u1'') (py ''cat''), boom_message (py ''c1'')]\<rparr>)],
        persisted = NoFile\<rparr>)
   \<and> (\<exists>st'. generate_image (Inl \<circ> Exception)
       \<lparr>u_session = 0x0123456789abcdef0123456789abcdef,
        u_user = 0x1123456789abcdef0123456789abcdef,
        u_bot = 0x2123456789abcdef0123456789abcdef,
        u_boom = 0x3123456789abcdef0123456789abcdef\<rparr>
       utf8_deployment \<lparr>req_prompt = Some (Some (py ''  hat '')), req_session_id = None\<rparr>
       \<lparr>sessions = [(py ''s1'', \<lparr>title = py ''cat'', messages =
           [user_message (py ''u1'') (py ''cat''), boom_message (py ''c1'')]\<rparr>)],
        persisted = NoFile\<rparr>
       = ((ErrorBody (py ''Image generation failed: hat''), 500), st')
     \<and> persisted st' = NoFile
     \<and> get (sessions st') (py ''01234567'') = Some \<lparr>title = py ''hat'', messages = []\<rparr>
     \<and> get (sessions st') (py ''s1'') = Some \<lparr>title = py ''cat'', messages =
           [user_message (py ''u1'') (py ''cat''), boom_message (py ''c1'')]\<rparr>)"
    (is "generate_image ?g ?d ?w ?r1 ?st = (?e1, ?st)
      \<and> (\<exists>st'. generate_image ?g ?d ?w ?r2 ?st = (?e2, st') \<and> ?Q st')")
proof
  have s: "strip (py ''  hat '') = py ''hat''"
    by (simp add: strip_def isspace_def py_def)
  have n: "py ''hat'' \<noteq> []" "py ''s1'' \<noteq> []" "py ''cat'' \<noteq> []"
    "py ''s1'' \<noteq> py ''01234567''"
    by (simp_all add: py_def)
  have h: "get_all_prompts (sessions ?st) (py ''s1'') = py ''cat''"
    by (simp add: get_all_prompts_def user_message_def boom_message_def dict_get_def truthy_def
        py_def)
  have c: "py ''Image generation failed: '' @ py ''cat'' @ py ''. '' @ py ''hat''
      = py ''Image generation failed: cat. hat''"
    "py ''Image generation failed: '' @ py ''hat'' = py ''Image generation failed: hat''"
    by (simp_all add: py_def)
  have p: "can_print ?w (py ''hat'')" "can_print ?w (py ''s1'')" "can_print ?w (py ''cat'')"
    "can_print ?w (py ''. '')" "can_print ?w (py ''None'')"
    "can_print ?w (take 100 (py ''cat'' @ py ''. '' @ py ''hat''))"
    by (simp_all add: can_print_def py_def)
  have i: "short_id (u_session ?d) = py ''01234567''"
    by (simp add: example_ids)
  have t: "take 30 (py ''hat'') = py ''hat''" "\<not> 30 < length (py ''hat'')"
    by (simp_all add: py_def)
  have pre1: "req_prompt ?r1 = Some (Some (py ''  hat '')) \<and> strip (py ''  hat '') \<noteq> []
      \<and> can_print ?w (strip (py ''  hat ''))
      \<and> can_print ?w (str_of_pyval (req_session_id ?r1))"
    using s n p by (simp add: str_of_pyval_def)
  have named: "req_session_id ?r1 = Some (py ''s1'') \<and> py ''s1'' \<noteq> []
      \<and> get (sessions ?st) (py ''s1'') = Some \<lparr>title = py ''cat'', messages =
              [user_message (py ''u1'') (py ''cat''), boom_message (py ''c1'')]\<rparr>
      \<and> can_print ?w (take 100 (if get_all_prompts (sessions ?st) (py ''s1'') \<noteq> []
              then get_all_prompts (sessions ?st) (py ''s1'') @ py ''. '' @ strip (py ''  hat '')
              else strip (py ''  hat '')))
      \<and> ?g (if get_all_prompts (sessions ?st) (py ''s1'') \<noteq> []
              then get_all_prompts (sessions ?st) (py ''s1'') @ py ''. '' @ strip (py ''  hat '')
              else strip (py ''  hat '')) = Inl (Exception (py ''cat'' @ py ''. '' @ py ''hat''))
      \<and> can_print ?w (str_of_error (Exception (py ''cat'' @ py ''. '' @ py ''hat'')))"
    unfolding h s using n p by (simp add: get_def)
  from new_generation_failure [where generate = ?g and d = ?d and w = ?w and req = ?r1
      and st = ?st, THEN mp, OF pre1, THEN conjunct1, THEN spec, THEN spec, THEN spec, THEN mp,
      OF named]
  show "generate_image ?g ?d ?w ?r1 ?st = (?e1, ?st)"
    using c by simp
  have pre2: "req_prompt ?r2 = Some (Some (py ''  hat '')) \<and> strip (py ''  hat '') \<noteq> []
      \<and> can_print ?w (strip (py ''  hat ''))
      \<and> can_print ?w (str_of_pyval (req_session_id ?r2))"
    using s n p by (simp add: str_of_pyval_def)
  have unnamed: "(req_session_id ?r2 = None \<or> req_session_id ?r2 = Some []
      \<or> (\<exists>k. req_session_id ?r2 = Some k \<and> get (sessions ?st) k = None))
      \<and> ?g (strip (py ''  hat '')) = Inl (Exception (py ''hat''))
      \<and> can_print ?w (str_of_error (Exception (py ''hat'')))"
    using s p by simp
  from new_generation_failure [where generate = ?g and d = ?d and w = ?w and req = ?r2
      and st = ?st, THEN mp, OF pre2, THEN conjunct2, THEN spec, THEN mp, OF unnamed]
  obtain st' where r: "generate_image ?g ?d ?w ?r2 ?st =
        ((ErrorBody (py ''Image generation failed: '' @ str_of_error (Exception (py ''hat''))), 500),
         st')"
    and ps: "persisted st' = persisted ?st"
    and new: "get (sessions st') (short_id (u_session ?d)) =
       Some \<lparr>title = take 30 (strip (py ''  hat ''))
               @ (if length (strip (py ''  hat '')) > 30 then py ''...'' else []),
             messages = []\<rparr>"
    and other: "\<forall>k. k \<noteq> short_id (u_session ?d) \<longrightarrow> get (sessions st') k = get (sessions ?st) k"
    by (elim exE conjE) (rule that)
  from other n i have "get (sessions st') (py ''s1'') = get (sessions ?st) (py ''s1'')"
    by simp
  then have old: "get (sessions st') (py ''s1'') = Some \<lparr>title = py ''cat'', messages =
           [user_message (py ''u1'') (py ''cat''), boom_message (py ''c1'')]\<rparr>"
    by (simp add: get_def)
  from r c have r': "generate_image ?g ?d ?w ?r2 ?st = (?e2, st')" by simp
  from new have new': "get (sessions st') (py ''01234567'') = Some \<lparr>title = py ''hat'', messages = []\<rparr>"
    unfolding s i using t by simp
  from r' ps new' old show "\<exists>st'. generate_image ?g ?d ?w ?r2 ?st = (?e2, st') \<and> ?Q st'"
    by (intro exI [of _ st']) simp
qed








subsection \<open>The message id that a run returns\<close>

lemma find_in_messages_sid:
  "find_in_messages sid all_msgs i ms message_id = Some (Inr (k, p)) \<Longrightarrow> k = sid"
  by (induction ms arbitrary: i) (auto split: if_splits sum.splits)

lemma find_message_prompt_sid:
  "find_message_prompt ss message_id = Inr (Some (sid, p)) \<Longrightarrow> \<exists>s. get ss sid = Some s"
proof (induction ss)
  case Nil
  then show ?case by simp
next
  case (Cons a ss)
  obtain k s where a: "a = (k, s)" by (cases a)
  show ?case
  proof (cases "find_in_messages k (messages s) 0 (messages s) message_id")
    case None
    with Cons a show ?thesis by (auto simp: get_def)
  next
    case (Some r)
    with Cons.prems a obtain q where "r = Inr (sid, q)"
      by (cases r) auto
    with Some have "sid = k" using find_in_messages_sid by blast
    with a show ?thesis by (simp add: get_def)
  qed
qed

lemma find_message_prompt_appended:
  assumes present: "get ss sid = Some s"
    and fresh: "\<forall>(k, s')\<in>set ss. \<forall>m\<in>set (messages s'). m_id m \<noteq> Some (Some bot_id)"
    and distinct: "user_id \<noteq> bot_id"
  shows "find_message_prompt
           (add_message
              (add_message (add_message ss sid (user_message user_id p)) sid
                 (bot_message bot_id image_path caption))
              sid (boom_message boom_id))
           bot_id = Inr (Some (sid, Some p))"
proof -
  let ?u = "user_message user_id p"
  let ?b = "bot_message bot_id image_path caption"
  let ?c = "boom_message boom_id"
  from present obtain before after where ss: "ss = before @ (sid, s) # after"
    and first: "sid \<notin> fst ` set before"
    using get_split by blast
  let ?msgs = "(messages s @ [?u]) @ ?b # [?c]"
  have store: "add_message (add_message (add_message ss sid ?u) sid ?b) sid ?c
      = before @ (sid, s\<lparr>messages := ?msgs\<rparr>) # after"
    using first by (simp add: ss add_message_split)
  from fresh have skip: "\<forall>(k, s')\<in>set before. \<forall>m\<in>set (messages s'). m_id m \<noteq> Some (Some bot_id)"
    by (auto simp: ss)
  from fresh distinct have earlier: "\<forall>m\<in>set (messages s @ [?u]). m_id m \<noteq> Some (Some bot_id)"
    by (auto simp: ss user_message_def)
  have "find_in_messages sid ?msgs 0 ?msgs bot_id
      = find_in_messages sid ?msgs (0 + length (messages s @ [?u])) (?b # [?c]) bot_id"
    using earlier by (rule find_in_messages_hit)
  also have "\<dots> = Some (Inr (sid, Some p))"
    by (simp add: nth_append bot_message_def user_message_def dict_get_def dict_index_def)
  finally have "find_message_prompt ((sid, s\<lparr>messages := ?msgs\<rparr>) # after) bot_id
      = Inr (Some (sid, Some p))"
    by simp
  with skip show ?thesis
    by (simp only: store find_message_prompt_skip)
qed

text \<open>
  C10, as the specification states it, fails when the id drawn for the image message
  is already the id of a stored message: \<open>find_message_prompt\<close> stops at the first
  message with that id. The session holds the prompt \<open>cat\<close> and an image message with
  the id \<open>21234567\<close>; a run of \<open>generate_image\<close> on the prompt \<open>hat\<close> draws the same id
  for its image message and returns it, and \<open>find_message_prompt\<close> on it returns \<open>cat\<close>.
\<close>

theorem regeneration_anchor_counterexample:
  "fst (generate_image (returns_path (py ''generated/0a1b2c3d.png''))
     \<lparr>u_session = 0x0123456789abcdef0123456789abcdef,
      u_user = 0x1123456789abcdef0123456789abcdef,
      u_bot = 0x2123456789abcdef0123456789abcdef,
      u_boom = 0x3123456789abcdef0123456789abcdef\<rparr>
     utf8_deployment \<lparr>req_prompt = Some (Some (py ''hat'')), req_session_id = Some (py ''s1'')\<rparr>
     \<lparr>sessions = [(py ''s1'', \<lparr>title = py ''cat'', messages =
        [user_message (py ''u1'') (py ''cat''),
         bot_message (py ''21234567'') (py ''generated/x.png'') (py ''caption'')]\<rparr>)],
      persisted = NoFile\<rparr>)
     = (GenerateOk (py ''s1'') (py ''/static/generated/0a1b2c3d.png'') (py ''21234567''), 200)
   \<and> find_message_prompt (sessions (snd (generate_image (returns_path (py ''generated/0a1b2c3d.png''))
     \<lparr>u_session = 0x0123456789abcdef0123456789abcdef,
      u_user = 0x1123456789abcdef0123456789abcdef,
      u_bot = 0x2123456789abcdef0123456789abcdef,
      u_boom = 0x3123456789abcdef0123456789abcdef\<rparr>
     utf8_deployment \<lparr>req_prompt = Some (Some (py ''hat'')), req_session_id = Some (py ''s1'')\<rparr>
     \<lparr>sessions = [(py ''s1'', \<lparr>title = py ''cat'', messages =
        [user_message (py ''u1'') (py ''cat''),
         bot_message (py ''21234567'') (py ''generated/x.png'') (py ''caption'')]\<rparr>)],
      persisted = NoFile\<rparr>)))
       (py ''21234567'')
     = Inr (Some (py ''s1'', Some (py ''cat'')))
   \<and> find_message_prompt (sessions (snd (generate_image (returns_path (py ''generated/0a1b2c3d.png''))
     \<lparr>u_session = 0x0123456789abcdef0123456789abcdef,
      u_user = 0x1123456789abcdef0123456789abcdef,
      u_bot = 0x2123456789abcdef0123456789abcdef,
      u_boom = 0x3123456789abcdef0123456789abcdef\<rparr>
     utf8_deployment \<lparr>req_prompt = Some (Some (py ''hat'')), req_session_id = Some (py ''s1'')\<rparr>
     \<lparr>sessions = [(py ''s1'', \<lparr>title = py ''cat'', messages =
        [user_message (py ''u1'') (py ''cat''),
         bot_message (py ''21234567'') (py ''generated/x.png'') (py ''caption'')]\<rparr>)],
      persisted = NoFile\<rparr>)))
       (py ''21234567'')
     \<noteq> Inr (Some (py ''s1'', Some (py ''hat'')))"
  by (simp add: example_defs example_ids)

text \<open>
  C10, amended. Let the id drawn for the image message be new: no message of the store
  carries it, and it differs from the id drawn for the user message of the same run.
  After a run of \<open>generate_image\<close> that answers with the session id \<open>sid\<close> and the
  message id \<open>anchor\<close>, \<open>find_message_prompt\<close> on \<open>anchor\<close> returns \<open>sid\<close> with the
  stripped prompt of the request, not the caption and not the effective prompt built
  from the history. After a run of \<open>regenerate\<close> that answers with \<open>sid\<close>, \<open>prompt\<close> and
  \<open>anchor\<close>, the capability was called on \<open>prompt\<close>, and \<open>find_message_prompt\<close> on
  \<open>anchor\<close> returns \<open>sid\<close> with \<open>prompt\<close>.
\<close>

theorem regeneration_anchor:
  "(req_prompt req = Some (Some raw)
      \<and> generate_image generate d w req st = ((GenerateOk sid image_url anchor, 200), st')
      \<and> (\<forall>(k, s)\<in>set (sessions st). \<forall>m\<in>set (messages s).
            m_id m \<noteq> Some (Some (short_id (u_bot d))))
      \<and> short_id (u_user d) \<noteq> short_id (u_bot d)
    \<longrightarrow> find_message_prompt (sessions st') anchor = Inr (Some (sid, Some (strip raw))))
   \<and> (regenerate generate d w message_id st
        = ((RegenerateOk sid prompt image_url anchor, 200), st')
      \<and> (\<forall>(k, s)\<in>set (sessions st). \<forall>m\<in>set (messages s).
            m_id m \<noteq> Some (Some (short_id (u_bot d))))
      \<and> short_id (u_user d) \<noteq> short_id (u_bot d)
    \<longrightarrow> (\<exists>image_path. generate prompt = Inr image_path)
        \<and> find_message_prompt (sessions st') anchor = Inr (Some (sid, Some prompt)))"
proof (intro conjI impI)
  assume "req_prompt req = Some (Some raw)
      \<and> generate_image generate d w req st = ((GenerateOk sid image_url anchor, 200), st')
      \<and> (\<forall>(k, s)\<in>set (sessions st). \<forall>m\<in>set (messages s).
            m_id m \<noteq> Some (Some (short_id (u_bot d))))
      \<and> short_id (u_user d) \<noteq> short_id (u_bot d)"
  then have a: "req_prompt req = Some (Some raw)"
    "generate_image generate d w req st = ((GenerateOk sid image_url anchor, 200), st')"
    and fresh: "\<forall>(k, s)\<in>set (sessions st). \<forall>m\<in>set (messages s).
            m_id m \<noteq> Some (Some (short_id (u_bot d)))"
    and distinct: "short_id (u_user d) \<noteq> short_id (u_bot d)"
    by blast+
  from generate_image_ok [OF a(2) a(1)] obtain sid0 p line ss' image_path where
    sl: "session_logic (sessions st) (u_session d) (req_session_id req) (strip raw)
      = (sid0, p, line, ss')"
    and fin: "finish_generation w d (st\<lparr>sessions := ss'\<rparr>) sid0 (strip raw) p image_path
      = ((GenerateOk sid image_url anchor, 200), st')"
    by (elim exE conjE) (rule that)
  from finish_generation_ok [OF fin] have resp: "sid = sid0" "anchor = short_id (u_bot d)"
    and sv: "save (st\<lparr>sessions := ss'\<rparr>\<lparr>sessions :=
          add_message
            (add_message
               (add_message (sessions (st\<lparr>sessions := ss'\<rparr>)) sid0
                  (user_message (short_id (u_user d)) (strip raw)))
               sid0
               (bot_message (short_id (u_bot d)) image_path
                  (py ''Image is generated from prompt:'' @ [10] @ p)))
            sid0 (boom_message (short_id (u_boom d)))\<rparr>) w = (None, st')"
    by simp_all
  from save_sessions [OF sv] have st': "sessions st' =
        add_message
          (add_message (add_message ss' sid0 (user_message (short_id (u_user d)) (strip raw)))
             sid0
             (bot_message (short_id (u_bot d)) image_path
                (py ''Image is generated from prompt:'' @ [10] @ p)))
          sid0 (boom_message (short_id (u_boom d)))"
    by simp
  from sl obtain s where s: "get ss' sid0 = Some s"
    using session_logic_present by blast
  let ?empty = "\<lparr>title = take 30 (strip raw) @ (if length (strip raw) > 30 then py ''...'' else []),
         messages = []\<rparr>"
  have "ss' = sessions st \<or> ss' = AList.update (short_id (u_session d)) ?empty (sessions st)"
    using sl session_logic_cases [of "req_session_id req" "sessions st"]
      session_logic_new [of "req_session_id req" "sessions st" "u_session d" "strip raw"]
    by (auto simp: session_logic_existing simp del: session_logic.simps)
  then have "set ss' \<subseteq> insert (short_id (u_session d), ?empty) (set (sessions st))"
    using set_update_subset [of "short_id (u_session d)" ?empty "sessions st"] by auto
  with fresh have fresh': "\<forall>(k, s)\<in>set ss'. \<forall>m\<in>set (messages s).
            m_id m \<noteq> Some (Some (short_id (u_bot d)))"
    by fastforce
  show "find_message_prompt (sessions st') anchor = Inr (Some (sid, Some (strip raw)))"
    unfolding st' resp using s fresh' distinct by (rule find_message_prompt_appended)
next
  assume "regenerate generate d w message_id st
        = ((RegenerateOk sid prompt image_url anchor, 200), st')
      \<and> (\<forall>(k, s)\<in>set (sessions st). \<forall>m\<in>set (messages s).
            m_id m \<noteq> Some (Some (short_id (u_bot d))))
      \<and> short_id (u_user d) \<noteq> short_id (u_bot d)"
  then have a: "regenerate generate d w message_id st
        = ((RegenerateOk sid prompt image_url anchor, 200), st')"
    and fresh: "\<forall>(k, s)\<in>set (sessions st). \<forall>m\<in>set (messages s).
            m_id m \<noteq> Some (Some (short_id (u_bot d)))"
    and distinct: "short_id (u_user d) \<noteq> short_id (u_bot d)"
    by blast+
  from a obtain mid image_path where
    found: "find_message_prompt (sessions st) mid = Inr (Some (sid, Some prompt))"
    and ok: "generate prompt = Inr image_path"
    and anchor: "anchor = short_id (u_bot d)"
    and sv: "save (st\<lparr>sessions :=
        add_message
          (add_message (add_message (sessions st) sid (user_message (short_id (u_user d)) prompt))
             sid (bot_message (short_id (u_bot d)) image_path prompt))
          sid (boom_message (short_id (u_boom d)))\<rparr>) w = (None, st')"
    by (auto simp: regenerate_def Let_def generation_failed_def
        split: option.splits if_splits prod.splits sum.splits)
  from save_sessions [OF sv] have st': "sessions st' =
        add_message
          (add_message (add_message (sessions st) sid (user_message (short_id (u_user d)) prompt))
             sid (bot_message (short_id (u_bot d)) image_path prompt))
          sid (boom_message (short_id (u_boom d)))"
    by simp
  from found obtain s where s: "get (sessions st) sid = Some s"
    using find_message_prompt_sid by blast
  from ok show "\<exists>image_path. generate prompt = Inr image_path" by blast
  show "find_message_prompt (sessions st') anchor = Inr (Some (sid, Some prompt))"
    unfolding st' anchor using s fresh distinct by (rule find_message_prompt_appended)
qed

theorem regeneration_anchor_witness:
  "find_message_prompt (sessions (snd (generate_image (returns_path (py ''generated/0a1b2c3d.png''))
     \<lparr>u_session = 0x0123456789abcdef0123456789abcdef,
      u_user = 0x1123456789abcdef0123456789abcdef,
      u_bot = 0x2123456789abcdef0123456789abcdef,
      u_boom = 0x3123456789abcdef0123456789abcdef\<rparr>
     utf8_deployment \<lparr>req_prompt = Some (Some (py '' hat'')), req_session_id = Some (py ''s1'')\<rparr>
     \<lparr>sessions = [(py ''s1'', \<lparr>title = py ''cat'', messages =
        [user_message (py ''u1'') (py ''cat''),
         bot_message (py ''b1'') (py ''generated/x.png'') (py ''caption'')]\<rparr>)],
      persisted = NoFile\<rparr>)))
     (py ''21234567'') = Inr (Some (py ''s1'', Some (py ''hat'')))
   \<and> fst (regenerate (returns_path (py ''generated/0a1b2c3d.png''))
     \<lparr>u_session = 0x0123456789abcdef0123456789abcdef,
      u_user = 0x1123456789abcdef0123456789abcdef,
      u_bot = 0x2123456789abcdef0123456789abcdef,
      u_boom = 0x3123456789abcdef0123456789abcdef\<rparr>
     utf8_deployment (Some (py ''b1''))
     \<lparr>sessions = [(py ''s1'', \<lparr>title = py ''cat'', messages =
        [user_message (py ''u1'') (py ''cat''),
         bot_message (py ''b1'') (py ''generated/x.png'') (py ''caption'')]\<rparr>)],
      persisted = NoFile\<rparr>)
     = (RegenerateOk (py ''s1'') (py ''cat'') (py ''/static/generated/0a1b2c3d.png'')
          (py ''21234567''), 200)
   \<and> find_message_prompt (sessions (snd (regenerate (returns_path (py ''generated/0a1b2c3d.png''))
     \<lparr>u_session = 0x0123456789abcdef0123456789abcdef,
      u_user = 0x1123456789abcdef0123456789abcdef,
      u_bot = 0x2123456789abcdef0123456789abcdef,
      u_boom = 0x3123456789abcdef0123456789abcdef\<rparr>
     utf8_deployment (Some (py ''b1''))
     \<lparr>sessions = [(py ''s1'', \<lparr>title = py ''cat'', messages =
        [user_message (py ''u1'') (py ''cat''),
         bot_message (py ''b1'') (py ''generated/x.png'') (py ''caption'')]\<rparr>)],
      persisted = NoFile\<rparr>)))
     (py ''21234567'') = Inr (Some (py ''s1'', Some (py ''cat'')))"
    (is "find_message_prompt (sessions (snd ?g_ok)) ?anchor = ?found
      \<and> fst ?r_ok = ?r_resp
      \<and> find_message_prompt (sessions (snd ?r_ok)) ?anchor = ?found'")
proof (intro conjI)
  let ?d = "\<lparr>u_session = 0x0123456789abcdef0123456789abcdef,
      u_user = 0x1123456789abcdef0123456789abcdef,
      u_bot = 0x2123456789abcdef0123456789abcdef,
      u_boom = 0x3123456789abcdef0123456789abcdef\<rparr>"
  let ?st = "\<lparr>sessions = [(py ''s1'', \<lparr>title = py ''cat'', messages =
        [user_message (py ''u1'') (py ''cat''),
         bot_message (py ''b1'') (py ''generated/x.png'') (py ''caption'')]\<rparr>)],
      persisted = NoFile\<rparr>"
  have s: "strip (py '' hat'') = py ''hat''"
    by (simp add: strip_def isspace_def py_def)
  have fresh: "\<forall>(k, s)\<in>set (sessions ?st). \<forall>m\<in>set (messages s).
      m_id m \<noteq> Some (Some (short_id (u_bot ?d)))"
    by (simp add: user_message_def bot_message_def example_ids py_def)
  have distinct: "short_id (u_user ?d) \<noteq> short_id (u_bot ?d)"
    by (simp add: example_ids py_def)
  have "fst ?g_ok
      = (GenerateOk (py ''s1'') (py ''/static/generated/0a1b2c3d.png'') (py ''21234567''), 200)"
    by (simp add: example_defs example_ids)
  then have "?g_ok
      = ((GenerateOk (py ''s1'') (py ''/static/generated/0a1b2c3d.png'') (py ''21234567''), 200),
         snd ?g_ok)"
    by (simp add: prod_eq_iff)
  with fresh distinct have "req_prompt \<lparr>req_prompt = Some (Some (py '' hat'')), req_session_id = Some (py ''s1'')\<rparr> = Some (Some (py '' hat''))
      \<and> ?g_ok
        = ((GenerateOk (py ''s1'') (py ''/static/generated/0a1b2c3d.png'') (py ''21234567''), 200),
           snd ?g_ok)
      \<and> (\<forall>(k, s)\<in>set (sessions ?st). \<forall>m\<in>set (messages s).
            m_id m \<noteq> Some (Some (short_id (u_bot ?d))))
      \<and> short_id (u_user ?d) \<noteq> short_id (u_bot ?d)"
    by simp
  from regeneration_anchor [THEN conjunct1, THEN mp, OF this]
  show "find_message_prompt (sessions (snd ?g_ok)) ?anchor = ?found"
    unfolding s .
  show r: "fst ?r_ok = ?r_resp"
    by (simp add: example_defs example_ids)
  then have "?r_ok = (?r_resp, snd ?r_ok)"
    by (simp add: prod_eq_iff)
  with fresh distinct have "?r_ok = (?r_resp, snd ?r_ok)
      \<and> (\<forall>(k, s)\<in>set (sessions ?st). \<forall>m\<in>set (messages s).
            m_id m \<noteq> Some (Some (short_id (u_bot ?d))))
      \<and> short_id (u_user ?d) \<noteq> short_id (u_bot ?d)"
    by simp
  from regeneration_anchor [THEN conjunct2, THEN mp, OF this]
  show "find_message_prompt (sessions (snd ?r_ok)) ?anchor = ?found'" by simp
qed

section \<open>The keys of the stored messages\<close>

text \<open>
  Every message that the routes write has the keys \<open>sender\<close> and \<open>text\<close>, and a status
  update keeps them: a store whose messages all have both keys stays such a store under
  the three routes. The empty store, with which the service starts when there is no
  sessions file, is one.
\<close>

lemma add_message_keeps:
  "\<forall>(k, s)\<in>set ss. \<forall>m\<in>set (messages s). Q m \<Longrightarrow> Q msg \<Longrightarrow>
   \<forall>(k, s)\<in>set (add_message ss sid msg). \<forall>m\<in>set (messages s). Q m"
proof -
  assume q: "\<forall>(k, s)\<in>set ss. \<forall>m\<in>set (messages s). Q m" "Q msg"
  then have "\<forall>(k, s)\<in>set (AList.map_entry sid (\<lambda>s. s\<lparr>messages := messages s @ [msg]\<rparr>) ss).
      \<forall>m\<in>set (messages s). Q m"
    by (induction ss) auto
  with q show ?thesis by (simp add: add_message_def)
qed

lemma update_status_in_messages_keeps:
  "update_status_in_messages ms message_id status = Some ms' \<Longrightarrow>
   \<forall>m\<in>set ms. m_sender m \<noteq> None \<and> m_text m \<noteq> None \<Longrightarrow>
   \<forall>m\<in>set ms'. m_sender m \<noteq> None \<and> m_text m \<noteq> None"
  by (induction ms arbitrary: ms') (auto split: if_splits)

lemma update_message_status_keeps:
  "\<forall>(k, s)\<in>set ss. \<forall>m\<in>set (messages s). m_sender m \<noteq> None \<and> m_text m \<noteq> None \<Longrightarrow>
   \<forall>(k, s)\<in>set (fst (update_message_status ss message_id status)).
     \<forall>m\<in>set (messages s). m_sender m \<noteq> None \<and> m_text m \<noteq> None"
proof (induction ss)
  case Nil
  then show ?case by simp
next
  case (Cons a ss)
  obtain k s where a: "a = (k, s)" by (cases a)
  show ?case
  proof (cases "update_status_in_messages (messages s) message_id status")
    case None
    with Cons a show ?thesis by (auto split: prod.splits)
  next
    case (Some ms')
    with Cons.prems a have "\<forall>m\<in>set ms'. m_sender m \<noteq> None \<and> m_text m \<noteq> None"
      using update_status_in_messages_keeps [OF Some] by auto
    with Cons.prems a Some show ?thesis by auto
  qed
qed

lemma create_keeps:
  "\<forall>(k, s)\<in>set ss. \<forall>m\<in>set (messages s). Q m \<Longrightarrow>
   \<forall>(k, s)\<in>set (snd (create ss u prompt)). \<forall>m\<in>set (messages s). Q m"
  using set_update_subset [of "short_id u" _ ss]
  by (fastforce simp: create_def Let_def)

lemma session_logic_keeps:
  "\<forall>(k, s)\<in>set ss. \<forall>m\<in>set (messages s). Q m \<Longrightarrow>
   session_logic ss u session_id prompt_new = (sid, p, line, ss') \<Longrightarrow>
   \<forall>(k, s)\<in>set ss'. \<forall>m\<in>set (messages s). Q m"
  using create_keeps [of ss Q u prompt_new]
  by (cases session_id) (auto simp: Let_def split: if_splits prod.splits)

lemma written_messages_have_keys:
  "m_sender (user_message i t) \<noteq> None \<and> m_text (user_message i t) \<noteq> None"
  "m_sender (bot_message i path t) \<noteq> None \<and> m_text (bot_message i path t) \<noteq> None"
  "m_sender (boom_message i) \<noteq> None \<and> m_text (boom_message i) \<noteq> None"
  by (simp_all add: user_message_def bot_message_def boom_message_def)

lemma finish_generation_store:
  "sessions (snd (finish_generation w d st sid prompt_new p image_path)) = sessions st
   \<or> sessions (snd (finish_generation w d st sid prompt_new p image_path))
       = add_message
           (add_message
              (add_message (sessions st) sid (user_message (short_id (u_user d)) prompt_new))
              sid
              (bot_message (short_id (u_bot d)) image_path
                 (py ''Image is generated from prompt:'' @ [10] @ p)))
           sid (boom_message (short_id (u_boom d)))"
  by (auto simp: finish_generation_def Let_def dest!: save_sessions
      split: option.splits prod.splits)

lemma regenerate_store:
  "sessions (snd (regenerate generate d w message_id st)) = sessions st
   \<or> (\<exists>sid prompt image_path.
        sessions (snd (regenerate generate d w message_id st))
          = add_message
              (add_message
                 (add_message (sessions st) sid (user_message (short_id (u_user d)) prompt))
                 sid (bot_message (short_id (u_bot d)) image_path prompt))
              sid (boom_message (short_id (u_boom d))))"
  apply (auto simp: regenerate_def Let_def dest!: save_sessions
      split: option.splits prod.splits sum.splits)
   apply blast+
  done

lemma routes_keep_keys:
  assumes "\<forall>(k, s)\<in>set (sessions st). \<forall>m\<in>set (messages s). m_sender m \<noteq> None \<and> m_text m \<noteq> None"
  shows "\<forall>(k, s)\<in>set (sessions (snd (generate_image generate d w req st))).
           \<forall>m\<in>set (messages s). m_sender m \<noteq> None \<and> m_text m \<noteq> None"
    and "\<forall>(k, s)\<in>set (sessions (snd (regenerate generate d w message_id st))).
           \<forall>m\<in>set (messages s). m_sender m \<noteq> None \<and> m_text m \<noteq> None"
    and "\<forall>(k, s)\<in>set (sessions (snd (update_status w mid status st))).
           \<forall>m\<in>set (messages s). m_sender m \<noteq> None \<and> m_text m \<noteq> None"
proof -
  let ?Q = "\<lambda>m. m_sender m \<noteq> None \<and> m_text m \<noteq> None"
  define inv where "inv ss \<longleftrightarrow> (\<forall>(k, s)\<in>set ss. \<forall>m\<in>set (messages s). ?Q m)" for ss :: store
  have three: "inv (add_message (add_message (add_message ss sid (user_message i t))
        sid (bot_message j path c)) sid (boom_message l))"
    if "inv ss" for ss sid i t j path c l
    using that unfolding inv_def
    by (intro add_message_keeps written_messages_have_keys)
  from assms have st: "inv (sessions st)" by (simp add: inv_def)
  have fin: "inv (sessions (snd (finish_generation w d (st\<lparr>sessions := ss\<rparr>) sid pn p path)))"
    if "inv ss" for ss sid pn p path
    using finish_generation_store [of w d "st\<lparr>sessions := ss\<rparr>" sid pn p path] that three [OF that]
    by auto
  have "inv (sessions (snd (generate_image generate d w req st)))"
  proof (cases "dict_get (req_prompt req) (Some [])")
    case None
    with st show ?thesis by (simp add: generate_image_def)
  next
    case (Some raw)
    obtain sid p line ss' where sl:
      "session_logic (sessions st) (u_session d) (req_session_id req) (strip raw)
        = (sid, p, line, ss')"
      by (metis prod_cases4)
    from assms sl have "inv ss'" unfolding inv_def by (rule session_logic_keeps)
    with st fin [OF this] show ?thesis
      by (simp add: generate_image_def Some Let_def sl split: option.splits sum.splits)
  qed
  then show "\<forall>(k, s)\<in>set (sessions (snd (generate_image generate d w req st))).
           \<forall>m\<in>set (messages s). ?Q m"
    by (simp add: inv_def)
  have "inv (sessions (snd (regenerate generate d w message_id st)))"
    using regenerate_store [of generate d w message_id st] st three [OF st] by auto
  then show "\<forall>(k, s)\<in>set (sessions (snd (regenerate generate d w message_id st))).
           \<forall>m\<in>set (messages s). ?Q m"
    by (simp add: inv_def)
  show "\<forall>(k, s)\<in>set (sessions (snd (update_status w mid status st))).
           \<forall>m\<in>set (messages s). ?Q m"
  proof (cases "\<exists>i t. mid = Some i \<and> status = Some t \<and> i \<noteq> [] \<and> t \<noteq> []")
    case True
    then obtain i t where it: "mid = Some i" "status = Some t" "i \<noteq> []" "t \<noteq> []" by blast
    obtain ss' ok where u: "update_message_status (sessions st) i t = (ss', ok)"
      by (cases "update_message_status (sessions st) i t")
    with it have "sessions (snd (update_status w mid status st)) = ss'"
      by (auto simp: update_status_def truthy_def dest!: save_sessions
          split: prod.splits option.splits)
    with update_message_status_keeps [OF assms, of i t] u show ?thesis by simp
  next
    case False
    then have "snd (update_status w mid status st) = st"
      by (cases mid; cases status) (auto simp: update_status_def truthy_def)
    with assms show ?thesis by simp
  qed
qed

end
